theory Spec2Isabelle
  imports Main
begin

section \<open>Data model (k8s/clustersetup/types.go)\<close>

text \<open>
  The structs of types.go as records. Go strings are byte strings, hence \<open>string\<close>;
  \<open>ValidityDays\<close> is a Go \<open>int\<close>, of which only the sign is ever inspected.
  The aggregate pod CIDR of the cluster is named \<open>ClusterPodCIDR\<close> because the
  per-node field already owns the name \<open>PodCIDR\<close>.
\<close>

record Node =
  Name :: string
  IPAddress :: string
  Hostname :: string
  PodCIDR :: string

record CertificateConfig =
  Country :: string
  State :: string
  City :: string
  Organization :: string
  OrganizationalUnit :: string
  ValidityDays :: int

record ClusterConfig =
  ClusterName :: string
  KubernetesVersion :: string
  EtcdVersion :: string
  ContainerdVersion :: string
  CNIVersion :: string
  CoreDNSVersion :: string
  ClusterPodCIDR :: string
  ServiceCIDR :: string
  ClusterDNS :: string
  WorkDir :: string
  SSHKey :: string
  SSHUser :: string
  Controller :: Node
  Workers :: "Node list"
  Certificates :: CertificateConfig

section \<open>The outside world: collaborators as a recorded dialogue\<close>

text \<open>
  A \<open>context.Context\<close> is reduced to what a callee could observe of it: the instant
  (in nanoseconds) at which it is cancelled, if ever. \<open>Background\<close> is never cancelled.
\<close>

datatype goctx = Context "nat option"

definition Background :: goctx where
  "Background = Context None"

text \<open>
  Every call that leaves the package is an event: the three methods of the
  SSHClient interface, the three methods of the CertificateManager interface, the
  local file system, the random source, the clock, the logger and the progress
  reporter; and, below the SSHClient interface, the calls RealSSHClient makes to
  \<open>golang.org/x/crypto/ssh\<close> (\<open>Dial\<close> with address and user, \<open>NewSession\<close>,
  \<open>StdinPipe\<close>, \<open>Run\<close> with the command and what is fed to its standard input,
  reading the captured standard error, \<open>Signal\<close>, and the two \<open>Close\<close>).
  A reply is Go's \<open>(value, error)\<close> pair: \<open>Failed msg\<close> is a non-nil error
  with that message, \<open>Done out\<close> a nil error with the returned value.
\<close>

datatype event =
    SSHExec goctx string string
  | SSHCopyFile goctx string string string
  | SSHCopyContent goctx string string string
  | GenerateCA string CertificateConfig
  | GenerateClientCert string string CertificateConfig
  | GenerateServerCert string string "string list" CertificateConfig
  | ReadFile string
  | WriteFile string string nat
  | MkdirAll string nat
  | RemoveAll string
  | RandRead nat
  | Sleep nat
  | LogInfo string
  | ReportProgress int int string
  | ParsePrivateKey string
  | Dial string string
  | NewSession
  | StdinPipe
  | Run string "string option"
  | ReadStderr
  | Signal string
  | CloseSession
  | CloseClient

datatype reply = Failed string | Done string

record world =
  trace :: "(event \<times> reply) list"
  now :: nat

text \<open>
  The runtime gathers what the package takes from elsewhere. \<open>respond\<close> answers an event
  given everything that happened before it, and says how long the call took; the
  other fields stand for library functions of Go that the package calls and that are
  not part of it: \<open>strings.TrimSpace\<close>, \<open>filepath.Join\<close>, \<open>Duration.String\<close>,
  \<open>yaml.Unmarshal\<close>, the iteration order of a \<open>range\<close> over a map, and the text
  templates of helpers.go that no property below looks into.
\<close>

datatype artifact =
    EtcdService Node
  | APIServerService
  | ControllerManagerService
  | SchedulerService
  | ContainerdConfig
  | ContainerdService
  | KubeletService Node
  | KubeProxyService
  | BridgeNetworkConfig string
  | LoopbackNetworkConfig
  | KubeletConfig Node
  | KubeProxyConfig
  | CoreDNSManifest
  | TestApplicationManifest

record runtime =
  respond :: "(event \<times> reply) list \<Rightarrow> event \<Rightarrow> reply \<times> nat"
  TrimSpace :: "string \<Rightarrow> string"
  Join :: "string \<Rightarrow> string \<Rightarrow> string"
  DurationString :: "nat \<Rightarrow> string"
  Unmarshal :: "string \<Rightarrow> string + ClusterConfig"
  rangeMap :: "(string \<times> string) list \<Rightarrow> (string \<times> string) list"
  render :: "ClusterConfig \<Rightarrow> artifact \<Rightarrow> string"

type_synonym 'a prog = "world \<Rightarrow> (string + 'a) \<times> world"

definition fresh :: "nat \<Rightarrow> world" where
  "fresh t0 = \<lparr>trace = [], now = t0\<rparr>"

definition call :: "runtime \<Rightarrow> event \<Rightarrow> world \<Rightarrow> reply \<times> world" where
  "call rt ev w =
     (case respond rt (trace w) ev of
        (r, dt) \<Rightarrow> (r, \<lparr>trace = trace w @ [(ev, r)], now = now w + dt\<rparr>))"

text \<open>A call whose error the caller looks at.\<close>

definition callE :: "runtime \<Rightarrow> event \<Rightarrow> string prog" where
  "callE rt ev w =
     (case call rt ev w of
        (Failed e, w') \<Rightarrow> (Inl e, w')
      | (Done out, w') \<Rightarrow> (Inr out, w'))"

text \<open>A call that returns nothing (logger, progress reporter).\<close>

definition tell :: "runtime \<Rightarrow> event \<Rightarrow> unit prog" where
  "tell rt ev w = (Inr (), snd (call rt ev w))"

text \<open>\<open>time.Sleep d\<close> lasts at least \<open>d\<close>; the responder may add to it.\<close>

definition sleep :: "runtime \<Rightarrow> nat \<Rightarrow> world \<Rightarrow> world" where
  "sleep rt d w = (let w' = snd (call rt (Sleep d) w) in w'\<lparr>now := now w' + d\<rparr>)"

definition returnE :: "'a \<Rightarrow> 'a prog" where
  "returnE x w = (Inr x, w)"

definition failE :: "string \<Rightarrow> 'a prog" where
  "failE e w = (Inl e, w)"

definition bindE :: "'a prog \<Rightarrow> ('a \<Rightarrow> 'b prog) \<Rightarrow> 'b prog" where
  "bindE f g w = (case f w of (Inl e, w') \<Rightarrow> (Inl e, w') | (Inr x, w') \<Rightarrow> g x w')"

definition thenE :: "'a prog \<Rightarrow> 'b prog \<Rightarrow> 'b prog" where
  "thenE f g = bindE f (\<lambda>_. g)"

text \<open>\<open>fmt.Errorf(format, \<dots>, err)\<close>: the error of \<open>f\<close>, if any, is rewritten by \<open>h\<close>.\<close>

definition mapErr :: "(string \<Rightarrow> string) \<Rightarrow> 'a prog \<Rightarrow> 'a prog" where
  "mapErr h f w = (case f w of (Inl e, w') \<Rightarrow> (Inl (h e), w') | (Inr x, w') \<Rightarrow> (Inr x, w'))"

text \<open>\<open>fmt.Errorf(prefix + ": %w", err)\<close>.\<close>

definition wrap :: "string \<Rightarrow> string \<Rightarrow> string" where
  "wrap prefix e = prefix @ '': '' @ e"

text \<open>\<open>for _, x := range xs { if err := body(x); err != nil { return err } }\<close>.\<close>

fun forE :: "'a list \<Rightarrow> ('a \<Rightarrow> unit prog) \<Rightarrow> unit prog" where
  "forE [] body = returnE ()"
| "forE (x # xs) body = bindE (body x) (\<lambda>_. forE xs body)"

section \<open>Loading the configuration (config.go)\<close>

text \<open>
  The chain of checks of \<open>LoadClusterConfig\<close> on the unmarshalled value, in the
  order of the source; \<open>None\<close> when every check passes.
\<close>

fun incompleteWorker :: "Node list \<Rightarrow> string option" where
  "incompleteWorker [] = None"
| "incompleteWorker (worker # rest) =
     (if IPAddress worker = [] \<or> Name worker = [] \<or> PodCIDR worker = []
      then Some (''worker '' @ Name worker @ '' configuration is incomplete'')
      else incompleteWorker rest)"

definition validate :: "ClusterConfig \<Rightarrow> string option" where
  "validate config =
    (if ClusterName config = [] then Some ''cluster_name is required''
     else if KubernetesVersion config = [] then Some ''kubernetes_version is required''
     else if EtcdVersion config = [] then Some ''etcd_version is required''
     else if ContainerdVersion config = [] then Some ''containerd_version is required''
     else if CNIVersion config = [] then Some ''cni_version is required''
     else if CoreDNSVersion config = [] then Some ''coredns_version is required''
     else if ClusterPodCIDR config = [] then Some ''pod_cidr is required''
     else if ServiceCIDR config = [] then Some ''service_cidr is required''
     else if ClusterDNS config = [] then Some ''cluster_dns is required''
     else if WorkDir config = [] then Some ''work_dir is required''
     else if SSHKey config = [] then Some ''ssh_key is required''
     else if SSHUser config = [] then Some ''ssh_user is required''
     else if IPAddress (Controller config) = [] \<or> Name (Controller config) = []
       then Some ''controller configuration is incomplete''
     else if length (Workers config) = 0 then Some ''at least one worker node is required''
     else (case incompleteWorker (Workers config) of
        Some e \<Rightarrow> Some e
      | None \<Rightarrow>
         if Country (Certificates config) = [] \<or> ValidityDays (Certificates config) \<le> 0
         then Some ''certificate configuration is incomplete''
         else None))"

text \<open>Modes are written in octal in the source: 0755 is 493, 0644 is 420.\<close>

definition LoadClusterConfig :: "runtime \<Rightarrow> string \<Rightarrow> ClusterConfig prog" where
  "LoadClusterConfig rt configPath =
     bindE (mapErr (wrap (''failed to read config file '' @ configPath))
              (callE rt (ReadFile configPath)))
       (\<lambda>data.
          case Unmarshal rt data of
            Inl e \<Rightarrow> failE (wrap ''failed to unmarshal config'' e)
          | Inr config \<Rightarrow>
              (case validate config of
                 Some e \<Rightarrow> failE e
               | None \<Rightarrow>
                   bindE (mapErr (wrap (''failed to create work directory '' @ WorkDir config))
                            (callE rt (MkdirAll (WorkDir config) 493)))
                     (\<lambda>_. returnE config)))"

section \<open>The ClusterManager's view of its collaborators (types.go)\<close>

definition Second :: nat where
  "Second = 1000000000"

definition ExecuteCommand :: "runtime \<Rightarrow> goctx \<Rightarrow> string \<Rightarrow> string \<Rightarrow> string prog" where
  "ExecuteCommand rt ctx host command = callE rt (SSHExec ctx host command)"

definition CopyFile :: "runtime \<Rightarrow> goctx \<Rightarrow> string \<Rightarrow> string \<Rightarrow> string \<Rightarrow> unit prog" where
  "CopyFile rt ctx host localPath remotePath =
     bindE (callE rt (SSHCopyFile ctx host localPath remotePath)) (\<lambda>_. returnE ())"

definition CopyContent :: "runtime \<Rightarrow> goctx \<Rightarrow> string \<Rightarrow> string \<Rightarrow> string \<Rightarrow> unit prog" where
  "CopyContent rt ctx host content remotePath =
     bindE (callE rt (SSHCopyContent ctx host content remotePath)) (\<lambda>_. returnE ())"

definition logInfo :: "runtime \<Rightarrow> string \<Rightarrow> unit prog" where
  "logInfo rt msg = tell rt (LogInfo msg)"

definition reportProgress :: "runtime \<Rightarrow> int \<Rightarrow> int \<Rightarrow> string \<Rightarrow> unit prog" where
  "reportProgress rt step totalSteps phase = tell rt (ReportProgress step totalSteps phase)"

definition timeSleep :: "runtime \<Rightarrow> nat \<Rightarrow> unit prog" where
  "timeSleep rt d w = (Inr (), sleep rt d w)"

text \<open>A call made only for its error: \<open>if _, err := f(); err != nil { return wrapped }\<close>.\<close>

definition attempt :: "(string \<Rightarrow> string) \<Rightarrow> 'a prog \<Rightarrow> unit prog" where
  "attempt h f = bindE (mapErr h f) (\<lambda>_. returnE ())"

fun seqE :: "unit prog list \<Rightarrow> unit prog" where
  "seqE [] = returnE ()"
| "seqE (p # ps) = bindE p (\<lambda>_. seqE ps)"

section \<open>Prerequisites (manager.go)\<close>

definition sshTest :: string where
  "sshTest = ''echo '' @ [CHR 0x27] @ ''SSH test'' @ [CHR 0x27]"

definition ValidateK8sPrerequisites :: "runtime \<Rightarrow> ClusterConfig \<Rightarrow> unit prog" where
  "ValidateK8sPrerequisites rt config =
     seqE [
       logInfo rt ''Checking prerequisites...'',
       forE (Controller config # Workers config) (\<lambda>node. seqE [
         attempt (wrap (''SSH connection to '' @ Name node @ '' failed''))
           (ExecuteCommand rt Background (IPAddress node) sshTest),
         logInfo rt (''SSH connection verified: '' @ Name node)]),
       attempt (wrap (''failed to create work directory '' @ WorkDir config))
         (callE rt (MkdirAll (WorkDir config) 493))]"

section \<open>PKI phase (config.go, generateCertificates)\<close>

definition clientCerts :: "ClusterConfig \<Rightarrow> string list" where
  "clientCerts config =
     [''admin'', ''kube-controller-manager'', ''kube-proxy'', ''kube-scheduler'',
      ''service-account''] @ map Name (Workers config)"

definition serverHosts :: "ClusterConfig \<Rightarrow> string list" where
  "serverHosts config =
     [''127.0.0.1'', ''10.32.0.1'', IPAddress (Controller config), Hostname (Controller config),
      ''kubernetes'', ''kubernetes.default'', ''kubernetes.default.svc'',
      ''kubernetes.default.svc.cluster'', ''kubernetes.default.svc.cluster.local'']"

definition generateCertificates :: "runtime \<Rightarrow> ClusterConfig \<Rightarrow> goctx \<Rightarrow> string \<Rightarrow> unit prog" where
  "generateCertificates rt config ctx workDir =
     seqE [
       logInfo rt ''Generating certificates...'',
       attempt (wrap ''failed to generate CA'')
         (callE rt (GenerateCA workDir (Certificates config))),
       forE (clientCerts config) (\<lambda>name.
         attempt (wrap (''failed to generate client certificate for '' @ name))
           (callE rt (GenerateClientCert workDir name (Certificates config)))),
       attempt (wrap ''failed to generate server certificate'')
         (callE rt (GenerateServerCert workDir ''kubernetes'' (serverHosts config)
                      (Certificates config))),
       logInfo rt ''All certificates generated successfully'']"

section \<open>Configuration phase (helpers.go, config.go)\<close>

text \<open>
  A raw string literal of the source is given line by line; every line of the
  templates ends with a newline.
\<close>

definition textLines :: "string list \<Rightarrow> string" where
  "textLines ls = concat (map (\<lambda>l. l @ [CHR 0x0A]) ls)"

text \<open>
  \<open>base64.StdEncoding.EncodeToString\<close> (RFC 4648, alphabet \<open>A-Za-z0-9+/\<close>, padding
  \<open>=\<close>): three bytes become four characters of six bits each.
\<close>

definition encodeStd :: string where
  "encodeStd = ''ABCDEFGHIJKLMNOPQRSTUVWXYZabcdefghijklmnopqrstuvwxyz0123456789+/''"

definition sextet :: "nat \<Rightarrow> char" where
  "sextet i = encodeStd ! (i mod 64)"

fun EncodeToString :: "string \<Rightarrow> string" where
  "EncodeToString (a # b # c # rest) =
     [sextet (of_char a div 4),
      sextet ((of_char a mod 4) * 16 + of_char b div 16),
      sextet ((of_char b mod 16) * 4 + of_char c div 64),
      sextet (of_char c mod 64)] @ EncodeToString rest"
| "EncodeToString [a, b] =
     [sextet (of_char a div 4),
      sextet ((of_char a mod 4) * 16 + of_char b div 16),
      sextet ((of_char b mod 16) * 4),
      CHR ''='']"
| "EncodeToString [a] =
     [sextet (of_char a div 4),
      sextet ((of_char a mod 4) * 16),
      CHR ''='', CHR ''='']"
| "EncodeToString [] = []"

text \<open>
  The inverse, \<open>base64.StdEncoding.DecodeString\<close>, is what a reader of the rendered
  file applies to the secret: groups of four characters, padding only in the last
  group, no stray bits below the padding.
\<close>

definition unsextet :: "char \<Rightarrow> nat option" where
  "unsextet ch =
     (let i = length (takeWhile (\<lambda>x. x \<noteq> ch) encodeStd)
      in if i < 64 then Some i else None)"

fun DecodeString :: "string \<Rightarrow> string option" where
  "DecodeString [] = Some []"
| "DecodeString [p, q, r, s] =
     (case (unsextet p, unsextet q) of
        (Some x, Some y) \<Rightarrow>
          (if r = CHR ''='' \<and> s = CHR ''='' then
             (if y mod 16 = 0 then Some [char_of (x * 4 + y div 16)] else None)
           else case unsextet r of
             None \<Rightarrow> None
           | Some z \<Rightarrow>
               (if s = CHR ''='' then
                  (if z mod 4 = 0
                   then Some [char_of (x * 4 + y div 16), char_of ((y mod 16) * 16 + z div 4)]
                   else None)
                else case unsextet s of
                  None \<Rightarrow> None
                | Some v \<Rightarrow>
                    Some [char_of (x * 4 + y div 16), char_of ((y mod 16) * 16 + z div 4),
                          char_of ((z mod 4) * 64 + v)]))
      | _ \<Rightarrow> None)"
| "DecodeString (p # q # r # s # rest) =
     (case (unsextet p, unsextet q, unsextet r, unsextet s, DecodeString rest) of
        (Some x, Some y, Some z, Some v, Some bytes) \<Rightarrow>
          Some (char_of (x * 4 + y div 16) # char_of ((y mod 16) * 16 + z div 4)
                # char_of ((z mod 4) * 64 + v) # bytes)
      | _ \<Rightarrow> None)"
| "DecodeString _ = None"

text \<open>
  \<open>key := make([]byte, 32); rand.Read(key)\<close>: the buffer has its length whatever the
  source of randomness wrote into it.
\<close>

definition fillBuffer :: "nat \<Rightarrow> string \<Rightarrow> string" where
  "fillBuffer n bytes = take n (bytes @ replicate n (CHR 0x00))"

definition writeFile :: "runtime \<Rightarrow> string \<Rightarrow> string \<Rightarrow> unit prog" where
  "writeFile rt path content = bindE (callE rt (WriteFile path content 420)) (\<lambda>_. returnE ())"

definition encryptionConfigLines :: "string \<Rightarrow> string list" where
  "encryptionConfigLines encodedKey =
     [''kind: EncryptionConfig'',
      ''apiVersion: v1'',
      ''resources:'',
      ''  - resources:'',
      ''      - secrets'',
      ''    providers:'',
      ''      - aescbc:'',
      ''          keys:'',
      ''            - name: key1'',
      ''              secret: '' @ encodedKey,
      ''      - identity: {}'']"

definition generateEncryptionConfig :: "runtime \<Rightarrow> string \<Rightarrow> unit prog" where
  "generateEncryptionConfig rt workDir =
     bindE (mapErr (wrap ''failed to generate encryption key'') (callE rt (RandRead 32)))
       (\<lambda>bytes.
          let key = fillBuffer 32 bytes;
              encodedKey = EncodeToString key
          in writeFile rt (Join rt workDir ''encryption-config.yaml'')
               (textLines (encryptionConfigLines encodedKey)))"

definition kubeconfigLines :: "string \<Rightarrow> string \<Rightarrow> string \<Rightarrow> string \<Rightarrow> string list" where
  "kubeconfigLines workDir clusterIP clusterName name =
     [''apiVersion: v1'',
      ''clusters:'',
      ''- cluster:'',
      ''    certificate-authority: '' @ workDir @ ''/ca.pem'',
      ''    server: https://'' @ clusterIP @ '':6443'',
      ''  name: '' @ clusterName,
      ''contexts:'',
      ''- context:'',
      ''    cluster: '' @ clusterName,
      ''    user: '' @ name,
      ''  name: '' @ name,
      ''current-context: '' @ name,
      ''kind: Config'',
      ''preferences: {}'',
      ''users:'',
      ''- name: '' @ name,
      ''  user:'',
      ''    client-certificate: '' @ workDir @ ''/'' @ name @ ''.pem'',
      ''    client-key: '' @ workDir @ ''/'' @ name @ ''-key.pem'']"

definition generateKubeconfig :: "runtime \<Rightarrow> ClusterConfig \<Rightarrow> string \<Rightarrow> string \<Rightarrow> string \<Rightarrow> unit prog" where
  "generateKubeconfig rt config workDir name ip =
     (let clusterIP = (if ip \<noteq> [] then ip else IPAddress (Controller config))
      in writeFile rt (Join rt workDir (name @ ''.kubeconfig''))
           (textLines (kubeconfigLines workDir clusterIP (ClusterName config) name)))"

definition createConfigurations :: "runtime \<Rightarrow> ClusterConfig \<Rightarrow> goctx \<Rightarrow> string \<Rightarrow> unit prog" where
  "createConfigurations rt config ctx workDir =
     seqE [
       logInfo rt ''Creating configurations...'',
       mapErr (wrap ''failed to create encryption config'') (generateEncryptionConfig rt workDir),
       forE (Workers config) (\<lambda>worker.
         mapErr (wrap (''failed to generate kubeconfig for '' @ Name worker))
           (generateKubeconfig rt config workDir (Name worker) (IPAddress worker))),
       forE [''kube-proxy'', ''kube-controller-manager'', ''kube-scheduler'', ''admin''] (\<lambda>name.
         let ip = (if name = ''kube-controller-manager'' \<or> name = ''kube-scheduler''
                      \<or> name = ''admin''
                   then IPAddress (Controller config) else [])
         in mapErr (wrap (''failed to generate kubeconfig for '' @ name))
              (generateKubeconfig rt config workDir name ip)),
       logInfo rt ''All configurations created successfully'']"

section \<open>Health gate (config.go, waitForService)\<close>

text \<open>
  The loop of \<open>waitForService\<close>: \<open>time.Now()\<close> is the clock of the world; a probe
  that fails and a probe that answers something else than \<open>active\<close> are the same
  branch of the source (\<open>err == nil && strings.TrimSpace(output) == "active"\<close>).
\<close>

definition isActive :: "runtime \<Rightarrow> string + string \<Rightarrow> bool" where
  "isActive rt res = (case res of Inl err \<Rightarrow> False | Inr output \<Rightarrow> TrimSpace rt output = ''active'')"

function waitLoop :: "runtime \<Rightarrow> goctx \<Rightarrow> string \<Rightarrow> string \<Rightarrow> nat \<Rightarrow> nat \<Rightarrow> unit prog" where
  "waitLoop rt ctx host serviceName timeout deadline w =
     (if now w < deadline then
        (let res = ExecuteCommand rt ctx host (''sudo systemctl is-active '' @ serviceName) w
         in if isActive rt (fst res)
            then logInfo rt (''Service '' @ serviceName @ '' is healthy'') (snd res)
            else waitLoop rt ctx host serviceName timeout deadline (sleep rt (5 * Second) (snd res)))
      else
        (Inl (''service '' @ serviceName @ '' did not become healthy within ''
                @ DurationString rt timeout), w))"
  by pat_completeness auto
termination
proof (relation "measure (\<lambda>(rt, ctx, host, serviceName, timeout, deadline, w). deadline - now w)")
  show "wf (measure (\<lambda>(rt, ctx, host, serviceName, timeout, deadline, w). deadline - now w))"
    by simp
next
  fix rt :: runtime and ctx host serviceName and timeout deadline :: nat and w :: world and res
  assume lt: "now w < deadline"
    and res: "res = ExecuteCommand rt ctx host (''sudo systemctl is-active '' @ serviceName) w"
  have "now w \<le> now (snd res)"
    unfolding res ExecuteCommand_def callE_def call_def
    by (simp split: prod.splits reply.splits)
  moreover have "now (snd res) < now (sleep rt (5 * Second) (snd res))"
    unfolding sleep_def call_def Second_def
    by (simp add: Let_def split: prod.splits)
  ultimately show "((rt, ctx, host, serviceName, timeout, deadline, sleep rt (5 * Second) (snd res)),
                    (rt, ctx, host, serviceName, timeout, deadline, w))
      \<in> measure (\<lambda>(rt, ctx, host, serviceName, timeout, deadline, w). deadline - now w)"
    using lt by simp
qed

declare waitLoop.simps [simp del]

definition waitForService :: "runtime \<Rightarrow> goctx \<Rightarrow> string \<Rightarrow> string \<Rightarrow> nat \<Rightarrow> unit prog" where
  "waitForService rt ctx host serviceName timeout w =
     waitLoop rt ctx host serviceName timeout (now w + timeout) w"

section \<open>Controller phase (config.go, setupControlPlane)\<close>

definition startUnit :: "string \<Rightarrow> string" where
  "startUnit service = ''sudo systemctl enable '' @ service @ '' && sudo systemctl start '' @ service"

definition etcdCommands :: "ClusterConfig \<Rightarrow> string list" where
  "etcdCommands config =
     [''sudo mkdir -p /etc/etcd /var/lib/etcd'',
      ''sudo groupadd -f etcd'',
      ''sudo useradd -g etcd -d /var/lib/etcd -s /sbin/nologin -c '' @ [CHR 0x27] @ ''etcd user''
        @ [CHR 0x27] @ '' etcd || true'',
      ''sudo chown -R etcd:etcd /var/lib/etcd'',
      ''wget -q --show-progress --https-only --timestamping '' @ [CHR 0x27]
        @ ''https://github.com/etcd-io/etcd/releases/download/'' @ EtcdVersion config
        @ ''/etcd-'' @ EtcdVersion config @ ''-linux-amd64.tar.gz'' @ [CHR 0x27],
      ''tar -xzf etcd-'' @ EtcdVersion config @ ''-linux-amd64.tar.gz'',
      ''sudo mv etcd-'' @ EtcdVersion config @ ''-linux-amd64/etcd* /usr/local/bin/'',
      ''rm -f etcd-'' @ EtcdVersion config @ ''-linux-amd64.tar.gz'']"

definition releaseURL :: "ClusterConfig \<Rightarrow> string \<Rightarrow> string" where
  "releaseURL config binary =
     [CHR 0x27] @ ''https://storage.googleapis.com/kubernetes-release/release/''
       @ KubernetesVersion config @ ''/bin/linux/amd64/'' @ binary @ [CHR 0x27]"

definition k8sCommands :: "ClusterConfig \<Rightarrow> string list" where
  "k8sCommands config =
     [''sudo mkdir -p /etc/kubernetes/config /var/lib/kubernetes'',
      ''wget -q --show-progress --https-only --timestamping ''
        @ releaseURL config ''kube-apiserver'' @ '' ''
        @ releaseURL config ''kube-controller-manager'' @ '' ''
        @ releaseURL config ''kube-scheduler'' @ '' ''
        @ releaseURL config ''kubectl'',
      ''chmod +x kube-apiserver kube-controller-manager kube-scheduler kubectl'',
      ''sudo mv kube-apiserver kube-controller-manager kube-scheduler kubectl /usr/local/bin/'']"

definition setupControlPlane :: "runtime \<Rightarrow> ClusterConfig \<Rightarrow> goctx \<Rightarrow> string \<Rightarrow> unit prog" where
  "setupControlPlane rt config ctx workDir =
     (let controller = Controller config in
      seqE [
       logInfo rt ''Setting up control plane...'',
       forE (etcdCommands config) (\<lambda>cmd.
         attempt (wrap (''failed to execute etcd setup command '' @ [CHR 0x27] @ cmd @ [CHR 0x27]
                          @ '' on controller''))
           (ExecuteCommand rt ctx (IPAddress controller) cmd)),
       forE [''ca.pem'', ''kubernetes-key.pem'', ''kubernetes.pem''] (\<lambda>file.
         let localPath = Join rt workDir file;
             remotePath = ''/etc/etcd/'' @ file
         in seqE [
              mapErr (wrap (''failed to copy '' @ file @ '' to controller''))
                (CopyFile rt ctx (IPAddress controller) localPath remotePath),
              attempt (wrap (''failed to set ownership for '' @ remotePath))
                (ExecuteCommand rt ctx (IPAddress controller)
                   (''sudo chown etcd:etcd '' @ remotePath))]),
       mapErr (wrap ''failed to upload etcd service'')
         (CopyContent rt ctx (IPAddress controller) (render rt config (EtcdService controller))
            ''/etc/systemd/system/etcd.service''),
       forE (k8sCommands config) (\<lambda>cmd.
         attempt (wrap (''failed to execute kubernetes setup command '' @ [CHR 0x27] @ cmd
                          @ [CHR 0x27] @ '' on controller''))
           (ExecuteCommand rt ctx (IPAddress controller) cmd)),
       forE [''ca-key.pem'', ''service-account-key.pem'', ''service-account.pem'',
             ''encryption-config.yaml'', ''kube-controller-manager.kubeconfig'',
             ''kube-scheduler.kubeconfig''] (\<lambda>file.
         let localPath = Join rt workDir file;
             remotePath = ''/var/lib/kubernetes/'' @ file
         in mapErr (wrap (''failed to copy '' @ file @ '' to controller''))
              (CopyFile rt ctx (IPAddress controller) localPath remotePath)),
       forE (rangeMap rt
               [(''kube-apiserver'', render rt config APIServerService),
                (''kube-controller-manager'', render rt config ControllerManagerService),
                (''kube-scheduler'', render rt config SchedulerService)]) (\<lambda>(name, content).
         let servicePath = ''/etc/systemd/system/'' @ name @ ''.service''
         in mapErr (wrap (''failed to upload '' @ name @ '' service''))
              (CopyContent rt ctx (IPAddress controller) content servicePath)),
       attempt (wrap ''failed to start etcd'')
         (ExecuteCommand rt ctx (IPAddress controller)
            ''sudo systemctl daemon-reload && sudo systemctl enable etcd && sudo systemctl start etcd''),
       mapErr (wrap ''etcd failed to become healthy'')
         (waitForService rt ctx (IPAddress controller) ''etcd'' (30 * Second)),
       attempt (wrap ''failed to start kube-apiserver'')
         (ExecuteCommand rt ctx (IPAddress controller)
            ''sudo systemctl enable kube-apiserver && sudo systemctl start kube-apiserver''),
       mapErr (wrap ''kube-apiserver failed to become healthy'')
         (waitForService rt ctx (IPAddress controller) ''kube-apiserver'' (60 * Second)),
       forE [''kube-controller-manager'', ''kube-scheduler''] (\<lambda>service. seqE [
         attempt (wrap (''failed to start '' @ service))
           (ExecuteCommand rt ctx (IPAddress controller) (startUnit service)),
         mapErr (wrap (service @ '' failed to become healthy''))
           (waitForService rt ctx (IPAddress controller) service (30 * Second))]),
       logInfo rt ''Control plane setup completed''])"

section \<open>Workers phase (config.go, setupSingleWorkerNode, setupWorkerNodes)\<close>

definition cniCommands :: "ClusterConfig \<Rightarrow> string list" where
  "cniCommands config =
     [''wget -q --show-progress --https-only --timestamping '' @ [CHR 0x27]
        @ ''https://github.com/containernetworking/plugins/releases/download/''
        @ CNIVersion config @ ''/cni-plugins-linux-amd64-'' @ CNIVersion config @ ''.tgz''
        @ [CHR 0x27],
      ''sudo tar -xzf cni-plugins-linux-amd64-'' @ CNIVersion config @ ''.tgz -C /opt/cni/bin/'',
      ''rm -f cni-plugins-linux-amd64-'' @ CNIVersion config @ ''.tgz'']"

definition containerdCommands :: "ClusterConfig \<Rightarrow> string list" where
  "containerdCommands config =
     [''wget -q --show-progress --https-only --timestamping '' @ [CHR 0x27]
        @ ''https://github.com/containerd/containerd/releases/download/''
        @ ContainerdVersion config @ ''/containerd-'' @ ContainerdVersion config
        @ ''-linux-amd64.tar.gz'' @ [CHR 0x27],
      ''wget -q --show-progress --https-only --timestamping '' @ [CHR 0x27]
        @ ''https://github.com/opencontainers/runc/releases/download/v1.1.7/runc.amd64''
        @ [CHR 0x27],
      ''sudo tar -xzf containerd-'' @ ContainerdVersion config @ ''-linux-amd64.tar.gz -C /'',
      ''sudo mv runc.amd64 runc'',
      ''chmod +x runc'',
      ''sudo mv runc /usr/local/bin/'',
      ''rm -f containerd-'' @ ContainerdVersion config @ ''-linux-amd64.tar.gz'']"

definition k8sWorkerCommands :: "ClusterConfig \<Rightarrow> string list" where
  "k8sWorkerCommands config =
     [''wget -q --show-progress --https-only --timestamping ''
        @ releaseURL config ''kubectl'' @ '' ''
        @ releaseURL config ''kube-proxy'' @ '' ''
        @ releaseURL config ''kubelet'',
      ''chmod +x kubectl kube-proxy kubelet'',
      ''sudo mv kubectl kube-proxy kubelet /usr/local/bin/'']"

definition setupSingleWorkerNode ::
  "runtime \<Rightarrow> ClusterConfig \<Rightarrow> goctx \<Rightarrow> string \<Rightarrow> Node \<Rightarrow> unit prog" where
  "setupSingleWorkerNode rt config ctx workDir worker =
     seqE [
       logInfo rt (''Setting up worker node '' @ Name worker @ ''...''),
       forE [''sudo apt-get update'',
             ''sudo apt-get -y install socat conntrack ipset'',
             ''sudo mkdir -p /etc/cni/net.d /opt/cni/bin /var/lib/kubelet /var/lib/kube-proxy /var/lib/kubernetes /var/run/kubernetes'']
         (\<lambda>cmd.
           attempt (wrap (''failed to execute dependency command '' @ [CHR 0x27] @ cmd @ [CHR 0x27]
                            @ '' on '' @ Name worker))
             (ExecuteCommand rt ctx (IPAddress worker) cmd)),
       forE (cniCommands config) (\<lambda>cmd.
         attempt (wrap (''failed to execute CNI command '' @ [CHR 0x27] @ cmd @ [CHR 0x27]
                          @ '' on '' @ Name worker))
           (ExecuteCommand rt ctx (IPAddress worker) cmd)),
       forE (containerdCommands config) (\<lambda>cmd.
         attempt (wrap (''failed to execute containerd command '' @ [CHR 0x27] @ cmd @ [CHR 0x27]
                          @ '' on '' @ Name worker))
           (ExecuteCommand rt ctx (IPAddress worker) cmd)),
       forE (k8sWorkerCommands config) (\<lambda>cmd.
         attempt (wrap (''failed to execute kubernetes command '' @ [CHR 0x27] @ cmd @ [CHR 0x27]
                          @ '' on '' @ Name worker))
           (ExecuteCommand rt ctx (IPAddress worker) cmd)),
       forE [''ca.pem'', Name worker @ ''-key.pem'', Name worker @ ''.pem'',
             Name worker @ ''.kubeconfig'', ''kube-proxy.kubeconfig''] (\<lambda>file.
         let localPath = Join rt workDir file;
             remotePath = (if file = ''kube-proxy.kubeconfig''
                           then ''/var/lib/kube-proxy/'' @ file
                           else ''/var/lib/kubelet/'' @ file)
         in mapErr (wrap (''failed to copy '' @ file @ '' to '' @ Name worker))
              (CopyFile rt ctx (IPAddress worker) localPath remotePath)),
       forE (rangeMap rt
               [(''/etc/containerd/config.toml'', render rt config ContainerdConfig),
                (''/etc/cni/net.d/10-bridge.conf'',
                   render rt config (BridgeNetworkConfig (PodCIDR worker))),
                (''/etc/cni/net.d/99-loopback.conf'', render rt config LoopbackNetworkConfig),
                (''/var/lib/kubelet/kubelet-config.yaml'', render rt config (KubeletConfig worker)),
                (''/var/lib/kube-proxy/kube-proxy-config.yaml'', render rt config KubeProxyConfig)])
         (\<lambda>(path, content).
           mapErr (wrap (''failed to upload config '' @ path @ '' to '' @ Name worker))
             (CopyContent rt ctx (IPAddress worker) content path)),
       forE (rangeMap rt
               [(''containerd'', render rt config ContainerdService),
                (''kubelet'', render rt config (KubeletService worker)),
                (''kube-proxy'', render rt config KubeProxyService)])
         (\<lambda>(name, content).
           let servicePath = ''/etc/systemd/system/'' @ name @ ''.service''
           in mapErr (wrap (''failed to upload '' @ name @ '' service to '' @ Name worker))
                (CopyContent rt ctx (IPAddress worker) content servicePath)),
       forE [''sudo systemctl daemon-reload'',
             ''sudo systemctl enable containerd kubelet kube-proxy'',
             ''sudo systemctl start containerd kubelet kube-proxy''] (\<lambda>cmd.
         attempt (wrap (''failed to execute start command '' @ [CHR 0x27] @ cmd @ [CHR 0x27]
                          @ '' on '' @ Name worker))
           (ExecuteCommand rt ctx (IPAddress worker) cmd)),
       logInfo rt (''Worker node '' @ Name worker @ '' setup completed'')]"

definition setupWorkerNodes :: "runtime \<Rightarrow> ClusterConfig \<Rightarrow> goctx \<Rightarrow> string \<Rightarrow> unit prog" where
  "setupWorkerNodes rt config ctx workDir =
     seqE [
       logInfo rt ''Setting up worker nodes...'',
       forE (Workers config) (\<lambda>worker.
         mapErr (wrap (''failed to setup worker '' @ Name worker))
           (setupSingleWorkerNode rt config ctx workDir worker)),
       logInfo rt ''All worker nodes setup completed'']"

section \<open>Network phase (config.go, setupNetworking)\<close>

definition routeCmd :: "Node \<Rightarrow> string" where
  "routeCmd otherWorker =
     ''sudo ip route add '' @ PodCIDR otherWorker @ '' via '' @ IPAddress otherWorker @ '' || true''"

definition adminKubeconfig :: string where
  "adminKubeconfig = '' --kubeconfig /var/lib/kubernetes/admin.kubeconfig''"

definition setupNetworking :: "runtime \<Rightarrow> ClusterConfig \<Rightarrow> goctx \<Rightarrow> unit prog" where
  "setupNetworking rt config ctx =
     (let controller = Controller config in
      seqE [
       logInfo rt ''Setting up networking...'',
       forE (Workers config) (\<lambda>worker.
         forE (Workers config) (\<lambda>otherWorker.
           if Name worker \<noteq> Name otherWorker then
             attempt (wrap (''failed to add route on '' @ Name worker))
               (ExecuteCommand rt ctx (IPAddress worker) (routeCmd otherWorker))
           else returnE ())),
       mapErr (wrap ''failed to upload CoreDNS manifest'')
         (CopyContent rt ctx (IPAddress controller) (render rt config CoreDNSManifest)
            ''/tmp/coredns.yaml''),
       attempt (wrap ''failed to apply CoreDNS manifest'')
         (ExecuteCommand rt ctx (IPAddress controller)
            (''kubectl apply -f /tmp/coredns.yaml'' @ adminKubeconfig)),
       logInfo rt ''Networking setup completed''])"

section \<open>Validation phase (config.go, validateCluster)\<close>

definition validateCluster :: "runtime \<Rightarrow> ClusterConfig \<Rightarrow> goctx \<Rightarrow> unit prog" where
  "validateCluster rt config ctx =
     (let controller = Controller config in
      bindE (logInfo rt ''Validating cluster...'') (\<lambda>_.
      bindE (mapErr (wrap ''failed to get node status'')
               (ExecuteCommand rt ctx (IPAddress controller)
                  (''kubectl get nodes'' @ adminKubeconfig))) (\<lambda>nodeStatus.
      bindE (logInfo rt (''Node status: '' @ nodeStatus)) (\<lambda>_.
      bindE (mapErr (wrap ''failed to get system pods'')
               (ExecuteCommand rt ctx (IPAddress controller)
                  (''kubectl get pods -n kube-system'' @ adminKubeconfig))) (\<lambda>podStatus.
      bindE (logInfo rt (''System pods: '' @ podStatus)) (\<lambda>_.
      bindE (mapErr (wrap ''failed to upload test app'')
               (CopyContent rt ctx (IPAddress controller)
                  (render rt config TestApplicationManifest) ''/tmp/test-app.yaml'')) (\<lambda>_.
      bindE (attempt (wrap ''failed to apply test app'')
               (ExecuteCommand rt ctx (IPAddress controller)
                  (''kubectl apply -f /tmp/test-app.yaml'' @ adminKubeconfig))) (\<lambda>_.
      bindE (timeSleep rt (30 * Second)) (\<lambda>_.
      bindE (mapErr (wrap ''failed to get test app status'')
               (ExecuteCommand rt ctx (IPAddress controller)
                  (''kubectl get deployment test-deployment'' @ adminKubeconfig))) (\<lambda>testStatus.
      bindE (logInfo rt (''Test application status: '' @ testStatus)) (\<lambda>_.
      logInfo rt ''Cluster validation completed'')))))))))))"

section \<open>The orchestrator (manager.go)\<close>

definition SetupCluster :: "runtime \<Rightarrow> ClusterConfig \<Rightarrow> goctx \<Rightarrow> unit prog" where
  "SetupCluster rt config ctx =
     (let totalSteps = 6; workDir = WorkDir config in
      seqE [
       reportProgress rt 1 totalSteps ''Checking Prerequisites'',
       mapErr (wrap ''prerequisites check failed'') (ValidateK8sPrerequisites rt config),
       reportProgress rt 2 totalSteps ''Generating Certificates'',
       mapErr (wrap ''failed to generate certificates'')
         (generateCertificates rt config ctx workDir),
       reportProgress rt 3 totalSteps ''Creating Configurations'',
       mapErr (wrap ''failed to create configurations'')
         (createConfigurations rt config ctx workDir),
       reportProgress rt 4 totalSteps ''Setting Up Control Plane'',
       mapErr (wrap ''failed to setup control plane'')
         (setupControlPlane rt config ctx workDir),
       reportProgress rt 5 totalSteps ''Setting Up Worker Nodes'',
       mapErr (wrap ''failed to setup worker nodes'')
         (setupWorkerNodes rt config ctx workDir),
       reportProgress rt 6 totalSteps ''Setting Up Networking'',
       mapErr (wrap ''failed to setup networking'') (setupNetworking rt config ctx),
       reportProgress rt 6 totalSteps ''Validating Cluster'',
       mapErr (wrap ''failed to validate cluster'') (validateCluster rt config ctx)])"

definition cleanupCommands :: "string list" where
  "cleanupCommands =
     [''sudo systemctl stop etcd kube-apiserver kube-controller-manager kube-scheduler containerd kubelet kube-proxy || true'',
      ''sudo systemctl disable etcd kube-apiserver kube-controller-manager kube-scheduler containerd kubelet kube-proxy || true'',
      ''sudo rm -rf /etc/etcd /var/lib/etcd /etc/kubernetes /var/lib/kubernetes /var/lib/kubelet /var/lib/kube-proxy /etc/cni /opt/cni /var/run/kubernetes'',
      ''sudo rm -f /usr/local/bin/etcd* /usr/local/bin/kube* /usr/local/bin/runc /bin/containerd*'',
      ''sudo rm -f /etc/systemd/system/etcd.service /etc/systemd/system/kube*.service /etc/systemd/system/containerd.service'',
      ''sudo systemctl daemon-reload'',
      ''sudo systemctl reset-failed'']"

definition DestroyCluster :: "runtime \<Rightarrow> ClusterConfig \<Rightarrow> goctx \<Rightarrow> unit prog" where
  "DestroyCluster rt config ctx =
     seqE [
       logInfo rt ''Destroying cluster...'',
       forE (Controller config # Workers config) (\<lambda>node. seqE [
         logInfo rt (''Cleaning up node: '' @ Name node),
         forE cleanupCommands (\<lambda>cmd.
           attempt (wrap (''failed to execute cleanup command '' @ [CHR 0x27] @ cmd @ [CHR 0x27]
                            @ '' on '' @ Name node))
             (ExecuteCommand rt ctx (IPAddress node) cmd))]),
       attempt (wrap (''failed to remove work directory '' @ WorkDir config))
         (callE rt (RemoveAll (WorkDir config))),
       logInfo rt ''Cluster destroyed successfully'']"

section \<open>The SSH transport (sshconfig.go)\<close>

record RealSSHClient =
  user :: string
  keyPath :: string

text \<open>\<open>defer cleanup()\<close>: runs when the rest of the function has returned, whatever it returned.\<close>

definition deferE :: "unit prog \<Rightarrow> 'a prog \<Rightarrow> 'a prog" where
  "deferE cleanup body w = (case body w of (r, w') \<Rightarrow> (r, snd (cleanup w')))"

definition createSSHClient :: "runtime \<Rightarrow> RealSSHClient \<Rightarrow> string \<Rightarrow> unit prog" where
  "createSSHClient rt c host =
     (let host' = (if CHR '':'' \<notin> set host then host @ '':22'' else host) in
      bindE (mapErr (wrap (''failed to read SSH key '' @ keyPath c)) (callE rt (ReadFile (keyPath c))))
        (\<lambda>key.
      bindE (mapErr (wrap (''failed to parse SSH key '' @ keyPath c)) (callE rt (ParsePrivateKey key)))
        (\<lambda>signer.
      bindE (callE rt (Dial host' (user c))) (\<lambda>_. returnE ()))))"

text \<open>
  The three methods receive \<open>ctx\<close> and never mention it again. The goroutine that
  writes the content to the pipe and closes it runs while \<open>session.Run\<close> does; it is
  part of the \<open>Run\<close> event, as the content fed to the command.
\<close>

definition RealExecuteCommand ::
  "runtime \<Rightarrow> RealSSHClient \<Rightarrow> goctx \<Rightarrow> string \<Rightarrow> string \<Rightarrow> string prog" where
  "RealExecuteCommand rt c ctx host command =
     bindE (mapErr (wrap (''failed to create SSH client for '' @ host)) (createSSHClient rt c host))
       (\<lambda>_. deferE (tell rt CloseClient)
         (bindE (mapErr (wrap (''failed to create SSH session for '' @ host)) (callE rt NewSession))
            (\<lambda>_. deferE (tell rt CloseSession)
              (\<lambda>w. case call rt (Run command None) w of
                 (Done stdout, w') \<Rightarrow> (Inr stdout, w')
               | (Failed err, w') \<Rightarrow>
                   (case call rt ReadStderr w' of
                      (r, w'') \<Rightarrow>
                        (Inl (''failed to execute command '' @ [CHR 0x27] @ command @ [CHR 0x27]
                              @ '' on '' @ host @ '': '' @ err @ '', stderr: ''
                              @ (case r of Done stderr \<Rightarrow> stderr | Failed _ \<Rightarrow> [])), w''))))))"

definition uploadVia ::
  "runtime \<Rightarrow> string \<Rightarrow> string \<Rightarrow> string \<Rightarrow> string \<Rightarrow> unit prog" where
  "uploadVia rt what host content remotePath =
     bindE (mapErr (wrap (''failed to create stdin pipe for '' @ host)) (callE rt StdinPipe))
       (\<lambda>_.
     bindE (mapErr (wrap (''failed to copy '' @ what @ '' to '' @ remotePath @ '' on '' @ host))
              (callE rt (Run (''sudo tee '' @ remotePath @ '' > /dev/null'') (Some content))))
       (\<lambda>_.
     bindE (mapErr (wrap (''failed to create permission session for '' @ host)) (callE rt NewSession))
       (\<lambda>_. deferE (tell rt CloseSession)
         (attempt (wrap (''failed to set permissions for '' @ remotePath @ '' on '' @ host))
            (callE rt (Run (''sudo chmod 644 '' @ remotePath) None))))))"

definition RealCopyFile ::
  "runtime \<Rightarrow> RealSSHClient \<Rightarrow> goctx \<Rightarrow> string \<Rightarrow> string \<Rightarrow> string \<Rightarrow> unit prog" where
  "RealCopyFile rt c ctx host localPath remotePath =
     bindE (mapErr (wrap (''failed to create SSH client for '' @ host)) (createSSHClient rt c host))
       (\<lambda>_. deferE (tell rt CloseClient)
         (bindE (mapErr (wrap (''failed to create SSH session for '' @ host)) (callE rt NewSession))
            (\<lambda>_. deferE (tell rt CloseSession)
              (bindE (mapErr (wrap (''failed to read local file '' @ localPath))
                        (callE rt (ReadFile localPath)))
                 (\<lambda>fileContent. uploadVia rt ''file'' host fileContent remotePath)))))"

definition RealCopyContent ::
  "runtime \<Rightarrow> RealSSHClient \<Rightarrow> goctx \<Rightarrow> string \<Rightarrow> string \<Rightarrow> string \<Rightarrow> unit prog" where
  "RealCopyContent rt c ctx host content remotePath =
     bindE (mapErr (wrap (''failed to create SSH client for '' @ host)) (createSSHClient rt c host))
       (\<lambda>_. deferE (tell rt CloseClient)
         (bindE (mapErr (wrap (''failed to create SSH session for '' @ host)) (callE rt NewSession))
            (\<lambda>_. deferE (tell rt CloseSession)
              (uploadVia rt ''content'' host content remotePath))))"

section \<open>Vocabulary of the properties\<close>

text \<open>
  \<open>calls P tr\<close> are the events of a trace that satisfy \<open>P\<close>, in order. \<open>emits P f X\<close>
  says that a run of \<open>f\<close> adds to them a prefix of \<open>X\<close>, and the whole of \<open>X\<close> when
  \<open>f\<close> returns without error.
\<close>

definition calls :: "(event \<Rightarrow> bool) \<Rightarrow> (event \<times> reply) list \<Rightarrow> event list" where
  "calls P tr = filter P (map fst tr)"

definition emits :: "(event \<Rightarrow> bool) \<Rightarrow> 'a prog \<Rightarrow> event list \<Rightarrow> bool" where
  "emits P f X \<longleftrightarrow>
     (\<forall>w. \<exists>k\<le>length X. calls P (trace (snd (f w))) = calls P (trace w) @ take k X
                        \<and> (\<forall>x. fst (f w) = Inr x \<longrightarrow> k = length X))"

definition isPKI :: "event \<Rightarrow> bool" where
  "isPKI ev = (case ev of GenerateCA _ _ \<Rightarrow> True | GenerateClientCert _ _ _ \<Rightarrow> True
                | GenerateServerCert _ _ _ _ \<Rightarrow> True | _ \<Rightarrow> False)"

section \<open>Fixtures\<close>

text \<open>
  \<open>testConfig\<close> is \<open>createTestConfig\<close> of the package's tests. \<open>mockRuntime\<close> answers
  as the tests' MockSSHClient does once \<open>is-active\<close> has been set to answer
  \<open>active\<close>: every command succeeds and takes a second.
\<close>

definition testConfig :: ClusterConfig where
  "testConfig =
     \<lparr>ClusterName = ''test-cluster'',
      KubernetesVersion = ''v1.26.0'',
      EtcdVersion = ''v3.5.9'',
      ContainerdVersion = ''1.7.2'',
      CNIVersion = ''v1.3.0'',
      CoreDNSVersion = ''1.10.1'',
      ClusterPodCIDR = ''10.200.0.0/16'',
      ServiceCIDR = ''10.32.0.0/24'',
      ClusterDNS = ''10.32.0.10'',
      WorkDir = ''/tmp/test-k8s'',
      SSHKey = ''~/.ssh/test.pem'',
      SSHUser = ''ubuntu'',
      Controller = \<lparr>Name = ''controller-0'', IPAddress = ''10.240.0.10'',
                     Hostname = ''controller-0'', PodCIDR = []\<rparr>,
      Workers =
        [\<lparr>Name = ''worker-0'', IPAddress = ''10.240.0.20'', Hostname = ''worker-0'',
          PodCIDR = ''10.200.0.0/24''\<rparr>,
         \<lparr>Name = ''worker-1'', IPAddress = ''10.240.0.21'', Hostname = ''worker-1'',
          PodCIDR = ''10.200.1.0/24''\<rparr>],
      Certificates = \<lparr>Country = ''US'', State = ''CA'', City = ''SF'', Organization = ''Test'',
                       OrganizationalUnit = ''IT'', ValidityDays = 365\<rparr>\<rparr>"

definition isSpace :: "char \<Rightarrow> bool" where
  "isSpace ch \<longleftrightarrow> ch \<in> set [CHR '' '', CHR 0x09, CHR 0x0A, CHR 0x0B, CHR 0x0C, CHR 0x0D]"

definition asciiTrim :: "string \<Rightarrow> string" where
  "asciiTrim s = rev (dropWhile isSpace (rev (dropWhile isSpace s)))"

definition mockRespond :: "(event \<times> reply) list \<Rightarrow> event \<Rightarrow> reply \<times> nat" where
  "mockRespond history ev =
     (case ev of
        SSHExec ctx host command \<Rightarrow>
          (if take 25 command = ''sudo systemctl is-active ''
           then (Done (''active'' @ [CHR 0x0A]), Second)
           else (Done ''success'', Second))
      | RandRead n \<Rightarrow> (Done (replicate n (CHR ''k'')), 0)
      | _ \<Rightarrow> (Done [], 0))"

definition mockRuntime :: runtime where
  "mockRuntime =
     \<lparr>respond = mockRespond,
      TrimSpace = asciiTrim,
      Join = (\<lambda>dir file. dir @ ''/'' @ file),
      DurationString = (\<lambda>d. if d = 60 * Second then ''1m0s'' else ''30s''),
      Unmarshal = (\<lambda>data. Inr testConfig),
      rangeMap = (\<lambda>entries. entries),
      render = (\<lambda>config a. [])\<rparr>"

text \<open>
  The invariants of the specification's data model that concern the nodes, in the
  specification's words: the controller's address is no worker's address, and the
  names of the workers are pairwise different.
\<close>

definition nodesDistinct :: "ClusterConfig \<Rightarrow> bool" where
  "nodesDistinct config \<longleftrightarrow>
     IPAddress (Controller config) \<notin> set (map IPAddress (Workers config))
     \<and> distinct (map Name (Workers config))"

text \<open>
  A configuration in which the controller is also the first worker and two workers
  carry the same name.
\<close>

definition sharedConfig :: ClusterConfig where
  "sharedConfig = testConfig
     \<lparr>Workers :=
        [\<lparr>Name = ''worker-0'', IPAddress = ''10.240.0.10'', Hostname = ''controller-0'',
          PodCIDR = ''10.200.0.0/24''\<rparr>,
         \<lparr>Name = ''worker-1'', IPAddress = ''10.240.0.21'', Hostname = ''worker-1'',
          PodCIDR = ''10.200.1.0/24''\<rparr>,
         \<lparr>Name = ''worker-1'', IPAddress = ''10.240.0.22'', Hostname = ''worker-2'',
          PodCIDR = ''10.200.2.0/24''\<rparr>]\<rparr>"

text \<open>Kinds of events that the properties single out.\<close>

definition isRoute :: "event \<Rightarrow> bool" where
  "isRoute ev = (case ev of SSHExec ctx host command \<Rightarrow> take 18 command = ''sudo ip route add ''
                 | _ \<Rightarrow> False)"

definition isRemote :: "event \<Rightarrow> bool" where
  "isRemote ev = (case ev of SSHExec _ _ _ \<Rightarrow> True | SSHCopyFile _ _ _ _ \<Rightarrow> True
                  | SSHCopyContent _ _ _ _ \<Rightarrow> True | _ \<Rightarrow> False)"

definition createsFile :: "event \<Rightarrow> bool" where
  "createsFile ev = (case ev of GenerateCA _ _ \<Rightarrow> True | GenerateClientCert _ _ _ \<Rightarrow> True
                     | GenerateServerCert _ _ _ _ \<Rightarrow> True | WriteFile _ _ _ \<Rightarrow> True
                     | _ \<Rightarrow> False)"

text \<open>A kubeconfig is a written file whose text opens with the header of the template.\<close>

definition isKubeconfig :: "event \<Rightarrow> bool" where
  "isKubeconfig ev = (case ev of WriteFile path content mode \<Rightarrow>
                        take 25 content = ''apiVersion: v1'' @ [CHR 0x0A] @ ''clusters:'' @ [CHR 0x0A]
                      | _ \<Rightarrow> False)"

text \<open>\<open>strings.HasSuffix\<close>.\<close>

definition hasSuffix :: "string \<Rightarrow> string \<Rightarrow> bool" where
  "hasSuffix s suffix \<longleftrightarrow>
     length suffix \<le> length s \<and> drop (length s - length suffix) s = suffix"

text \<open>The host an SSH command was sent to.\<close>

definition execHost :: "event \<Rightarrow> string option" where
  "execHost ev = (case ev of SSHExec ctx host command \<Rightarrow> Some host | _ \<Rightarrow> None)"

text \<open>
  The route commands of the Network phase: on every worker of \<open>as\<close>, one for every
  worker of \<open>ws\<close> that has another name.
\<close>

definition routesOf :: "goctx \<Rightarrow> Node list \<Rightarrow> Node list \<Rightarrow> event list" where
  "routesOf ctx as ws =
     concat (map (\<lambda>a. map (\<lambda>b. SSHExec ctx (IPAddress a) (routeCmd b))
                         (filter (\<lambda>b. Name a \<noteq> Name b) ws)) as)"


text \<open>
  The mock transport after \<open>SetCommandError\<close> for the connectivity probe, as in the
  package's test of a failing SSH connection; here only the second worker is
  unreachable.
\<close>

definition unreachableRuntime :: runtime where
  "unreachableRuntime = mockRuntime
     \<lparr>respond := (\<lambda>history ev.
        if ev = SSHExec Background ''10.240.0.21'' sshTest
        then (Failed ''connection refused'', 0)
        else mockRespond history ev)\<rparr>"

text \<open>
  The vocabulary of the health gates. A probe that passed is an \<open>is-active\<close> command
  for the unit, sent with this context to this host, whose trimmed output is
  \<open>active\<close>. \<open>gated probe start seen tr\<close> reads a trace from left to right and says
  that no event satisfying \<open>start\<close> occurs before an entry satisfying \<open>probe\<close>
  (\<open>seen\<close> tells whether one occurred before the trace began).
\<close>

definition activeProbe :: "runtime \<Rightarrow> goctx \<Rightarrow> string \<Rightarrow> string \<Rightarrow> event \<times> reply \<Rightarrow> bool" where
  "activeProbe rt ctx host unit x =
     (case x of
        (ev, Done output) \<Rightarrow>
          ev = SSHExec ctx host (''sudo systemctl is-active '' @ unit)
          \<and> TrimSpace rt output = ''active''
      | (ev, Failed err) \<Rightarrow> False)"

fun gated :: "(event \<times> reply \<Rightarrow> bool) \<Rightarrow> (event \<Rightarrow> bool) \<Rightarrow> bool \<Rightarrow> (event \<times> reply) list \<Rightarrow> bool" where
  "gated probe start seen [] = True"
| "gated probe start seen (x # xs) =
     ((if start (fst x) then seen else True) \<and> gated probe start (seen \<or> probe x) xs)"

text \<open>
  What a run of the health gate looks like: probes that did not pass, each followed
  by a sleep of five seconds, and then either nothing more (the deadline has
  passed) or a probe that passed and the log line that says so.
\<close>

fun polling :: "runtime \<Rightarrow> event \<Rightarrow> (event \<times> reply) list \<Rightarrow> bool" where
  "polling rt probe [] = True"
| "polling rt probe [x] = False"
| "polling rt probe (x # y # rest) =
     (fst x = probe \<and>
      (case snd x of
         Done output \<Rightarrow>
           if TrimSpace rt output = ''active''
           then rest = [] \<and> (case fst y of LogInfo msg \<Rightarrow> True | _ \<Rightarrow> False)
           else fst y = Sleep (5 * Second) \<and> polling rt probe rest
       | Failed err \<Rightarrow> fst y = Sleep (5 * Second) \<and> polling rt probe rest))"

text \<open>
  \<open>emitsOnly K f\<close>: a run of \<open>f\<close> only appends to the trace, and only events that
  satisfy \<open>K\<close>. \<open>triple I f E S\<close>: from a trace that satisfies \<open>I\<close>, the trace after
  \<open>f\<close> satisfies \<open>E\<close> when \<open>f\<close> returns an error and \<open>S\<close> when it does not.
\<close>

definition emitsOnly :: "(event \<Rightarrow> bool) \<Rightarrow> 'a prog \<Rightarrow> bool" where
  "emitsOnly K f \<longleftrightarrow>
     (\<forall>w. \<exists>evs. trace (snd (f w)) = trace w @ evs \<and> list_all (\<lambda>x. K (fst x)) evs)"

definition triple ::
  "((event \<times> reply) list \<Rightarrow> bool) \<Rightarrow> 'a prog \<Rightarrow> ((event \<times> reply) list \<Rightarrow> bool)
     \<Rightarrow> ((event \<times> reply) list \<Rightarrow> bool) \<Rightarrow> bool" where
  "triple I f E S \<longleftrightarrow>
     (\<forall>w. I (trace w) \<longrightarrow>
        (case fst (f w) of Inl e \<Rightarrow> E (trace (snd (f w))) | Inr x \<Rightarrow> S (trace (snd (f w)))))"

text \<open>The command that starts a unit, as an event on a host.\<close>

definition startOf :: "goctx \<Rightarrow> string \<Rightarrow> string \<Rightarrow> event \<Rightarrow> bool" where
  "startOf ctx host unit ev \<longleftrightarrow>
     ev = SSHExec ctx host
            (''sudo systemctl enable '' @ unit @ '' && sudo systemctl start '' @ unit)"

text \<open>A transport that loses the connection whenever the health of a unit is probed.\<close>

definition lostRuntime :: runtime where
  "lostRuntime = mockRuntime
     \<lparr>respond := (\<lambda>history ev.
        case ev of
          SSHExec ctx host command \<Rightarrow>
            (if take 25 command = ''sudo systemctl is-active ''
             then (Failed ''connection lost'', Second)
             else (Done ''success'', Second))
        | _ \<Rightarrow> (Done [], 0))\<rparr>"

section \<open>Rules for \<open>emits\<close>\<close>

lemma calls_append [simp]: "calls P (xs @ ys) = calls P xs @ calls P ys"
  by (simp add: calls_def)

lemma emitsI:
  assumes "\<And>w r w'. f w = (r, w') \<Longrightarrow>
     \<exists>k\<le>length X. calls P (trace w') = calls P (trace w) @ take k X
                    \<and> (\<forall>x. r = Inr x \<longrightarrow> k = length X)"
  shows "emits P f X"
  unfolding emits_def
proof
  fix w
  show "\<exists>k\<le>length X. calls P (trace (snd (f w))) = calls P (trace w) @ take k X
          \<and> (\<forall>x. fst (f w) = Inr x \<longrightarrow> k = length X)"
    using assms[of w "fst (f w)" "snd (f w)"] by simp
qed

lemma emitsD:
  assumes "emits P f X" "f w = (r, w')"
  shows "\<exists>k\<le>length X. calls P (trace w') = calls P (trace w) @ take k X
           \<and> (\<forall>x. r = Inr x \<longrightarrow> k = length X)"
  using assms(1)[unfolded emits_def, rule_format, of w] assms(2) by simp

lemma emits_success:
  assumes "emits P f X" "f w = (Inr x, w')"
  shows "calls P (trace w') = calls P (trace w) @ X"
proof -
  from emitsD[OF assms] obtain k
    where "calls P (trace w') = calls P (trace w) @ take k X" "k = length X"
    by blast
  then show ?thesis by simp
qed

lemma emits_returnE: "emits P (returnE x) []"
  by (rule emitsI) (auto simp: returnE_def)

lemma emits_failE: "emits P (failE e) []"
  by (rule emitsI) (auto simp: failE_def)

lemma emits_callE: "emits P (callE rt ev) (if P ev then [ev] else [])"
  by (rule emitsI)
     (auto simp: callE_def call_def calls_def split: prod.splits reply.splits
           intro: exI[of _ "Suc 0"])

lemma emits_tell: "emits P (tell rt ev) (if P ev then [ev] else [])"
  by (rule emitsI)
     (auto simp: tell_def call_def calls_def split: prod.splits intro: exI[of _ "Suc 0"])

lemma emits_timeSleep: "emits P (timeSleep rt d) (if P (Sleep d) then [Sleep d] else [])"
  by (rule emitsI)
     (auto simp: timeSleep_def sleep_def Let_def call_def calls_def split: prod.splits
           intro: exI[of _ "Suc 0"])

lemma emits_mapErr:
  assumes "emits P f X"
  shows "emits P (mapErr h f) X"
proof (rule emitsI)
  fix w r w' assume run: "mapErr h f w = (r, w')"
  obtain r1 w1 where fw: "f w = (r1, w1)" by (cases "f w")
  from emitsD[OF assms fw] obtain k
    where k: "k \<le> length X" "calls P (trace w1) = calls P (trace w) @ take k X"
      "\<And>x. r1 = Inr x \<Longrightarrow> k = length X" by blast
  from run fw have "w' = w1" "\<And>x. r = Inr x \<Longrightarrow> r1 = Inr x"
    by (auto simp: mapErr_def split: sum.splits)
  with k show "\<exists>k\<le>length X. calls P (trace w') = calls P (trace w) @ take k X
          \<and> (\<forall>x. r = Inr x \<longrightarrow> k = length X)"
    by (intro exI[of _ k]) auto
qed

lemma emits_bindE:
  assumes f: "emits P f X" and g: "\<And>x. emits P (g x) Y"
  shows "emits P (bindE f g) (X @ Y)"
proof (rule emitsI)
  fix w r w' assume run: "bindE f g w = (r, w')"
  obtain r1 w1 where fw: "f w = (r1, w1)" by (cases "f w")
  from emitsD[OF f fw] obtain k
    where k: "k \<le> length X" "calls P (trace w1) = calls P (trace w) @ take k X"
      "\<And>x. r1 = Inr x \<Longrightarrow> k = length X" by blast
  show "\<exists>k\<le>length (X @ Y). calls P (trace w') = calls P (trace w) @ take k (X @ Y)
          \<and> (\<forall>x. r = Inr x \<longrightarrow> k = length (X @ Y))"
  proof (cases r1)
    case (Inl e)
    with run fw have "r = Inl e" "w' = w1" by (auto simp: bindE_def)
    with k show ?thesis by (intro exI[of _ k]) auto
  next
    case (Inr x)
    with run fw have gw: "g x w1 = (r, w')" by (auto simp: bindE_def)
    from emitsD[OF g[of x] gw] obtain j
      where j: "j \<le> length Y" "calls P (trace w') = calls P (trace w1) @ take j Y"
        "\<And>y. r = Inr y \<Longrightarrow> j = length Y" by blast
    from k(3)[OF Inr] have kk: "k = length X" .
    show ?thesis using j k kk by (intro exI[of _ "length X + j"]) auto
  qed
qed

lemma emits_attempt: "emits P f X \<Longrightarrow> emits P (attempt h f) X"
  unfolding attempt_def
  using emits_bindE[OF emits_mapErr, of P f X "\<lambda>_. returnE ()" "[]" h]
  by (simp add: emits_returnE)

lemma emits_forE:
  assumes "\<And>x. x \<in> set xs \<Longrightarrow> emits P (body x) (X x)"
  shows "emits P (forE xs body) (concat (map X xs))"
  using assms
proof (induction xs)
  case Nil
  show ?case by (simp add: emits_returnE)
next
  case (Cons a xs)
  have "emits P (bindE (body a) (\<lambda>_. forE xs body)) (X a @ concat (map X xs))"
    by (rule emits_bindE) (use Cons in auto)
  then show ?case by simp
qed

lemma emits_seqE_Nil: "emits P (seqE []) []"
  by (simp add: emits_returnE)

lemma emits_seqE_Cons:
  "emits P p X \<Longrightarrow> emits P (seqE ps) Y \<Longrightarrow> emits P (seqE (p # ps)) (X @ Y)"
  by (simp add: emits_bindE)

lemma emits_eq: "emits P f X \<Longrightarrow> X = Y \<Longrightarrow> emits P f Y"
  by simp

lemma concat_singletons: "concat (map (\<lambda>x. [f x]) xs) = map f xs"
  by (induction xs) auto

lemmas run_defs = bindE_def returnE_def failE_def attempt_def mapErr_def callE_def call_def
  tell_def logInfo_def reportProgress_def timeSleep_def sleep_def deferE_def Let_def
  ExecuteCommand_def CopyFile_def CopyContent_def writeFile_def fresh_def Background_def

lemma mockRuntime_fields:
  "respond mockRuntime = mockRespond"
  "TrimSpace mockRuntime = asciiTrim"
  "Join mockRuntime = (\<lambda>dir file. dir @ ''/'' @ file)"
  "DurationString mockRuntime = (\<lambda>d. if d = 60 * Second then ''1m0s'' else ''30s'')"
  "Unmarshal mockRuntime = (\<lambda>data. Inr testConfig)"
  "rangeMap mockRuntime = (\<lambda>entries. entries)"
  "render mockRuntime = (\<lambda>config a. [])"
  by (simp_all add: mockRuntime_def)

lemmas mock_defs = mockRuntime_fields mockRespond_def testConfig_def Second_def

section \<open>Loading the configuration\<close>

lemma incompleteWorker_None:
  "incompleteWorker ws = None \<Longrightarrow>
     \<forall>worker\<in>set ws. IPAddress worker \<noteq> [] \<and> Name worker \<noteq> [] \<and> PodCIDR worker \<noteq> []"
  by (induction ws) (auto split: if_splits)

lemma validate_None:
  assumes "validate config = None"
  shows "ClusterName config \<noteq> [] \<and> KubernetesVersion config \<noteq> [] \<and> EtcdVersion config \<noteq> []
    \<and> ContainerdVersion config \<noteq> [] \<and> CNIVersion config \<noteq> [] \<and> CoreDNSVersion config \<noteq> []
    \<and> ClusterPodCIDR config \<noteq> [] \<and> ServiceCIDR config \<noteq> [] \<and> ClusterDNS config \<noteq> []
    \<and> WorkDir config \<noteq> [] \<and> SSHKey config \<noteq> [] \<and> SSHUser config \<noteq> []
    \<and> IPAddress (Controller config) \<noteq> [] \<and> Name (Controller config) \<noteq> []
    \<and> Workers config \<noteq> []
    \<and> incompleteWorker (Workers config) = None
    \<and> Country (Certificates config) \<noteq> [] \<and> 0 < ValidityDays (Certificates config)"
  using assms unfolding validate_def
  by (simp split: if_splits option.splits)

lemma LoadClusterConfig_validated:
  assumes "LoadClusterConfig rt configPath w = (Inr config, w')"
  shows "validate config = None"
  using assms unfolding LoadClusterConfig_def bindE_def mapErr_def failE_def returnE_def
  by (auto split: prod.splits sum.splits option.splits)

text \<open>
  C9 (as amended). A configuration that \<open>LoadClusterConfig\<close> returns without error
  has a non-empty cluster name, version pins, CIDRs, DNS address, work directory,
  SSH key and user, a controller with a name and an address, at least one worker,
  every worker with a name, an address and a pod CIDR, a country, and a positive
  validity; and a file whose \<open>cluster_name\<close> is empty is rejected with the error
  \<open>cluster_name is required\<close>, before anything else is looked at.
\<close>

theorem LoadClusterConfig_checks:
  "(LoadClusterConfig rt configPath w = (Inr config, w') \<longrightarrow>
      ClusterName config \<noteq> [] \<and> KubernetesVersion config \<noteq> [] \<and> EtcdVersion config \<noteq> []
      \<and> ContainerdVersion config \<noteq> [] \<and> CNIVersion config \<noteq> [] \<and> CoreDNSVersion config \<noteq> []
      \<and> ClusterPodCIDR config \<noteq> [] \<and> ServiceCIDR config \<noteq> [] \<and> ClusterDNS config \<noteq> []
      \<and> WorkDir config \<noteq> [] \<and> SSHKey config \<noteq> [] \<and> SSHUser config \<noteq> []
      \<and> IPAddress (Controller config) \<noteq> [] \<and> Name (Controller config) \<noteq> []
      \<and> Workers config \<noteq> []
      \<and> (\<forall>worker\<in>set (Workers config).
            IPAddress worker \<noteq> [] \<and> Name worker \<noteq> [] \<and> PodCIDR worker \<noteq> [])
      \<and> Country (Certificates config) \<noteq> [] \<and> 0 < ValidityDays (Certificates config))
   \<and> (callE rt (ReadFile configPath) w = (Inr data, w1) \<and> Unmarshal rt data = Inr unnamed
        \<and> ClusterName unnamed = [] \<longrightarrow>
      LoadClusterConfig rt configPath w = (Inl ''cluster_name is required'', w1))"
proof (rule conjI; rule impI)
  assume "LoadClusterConfig rt configPath w = (Inr config, w')"
  then have "validate config = None" by (rule LoadClusterConfig_validated)
  from validate_None[OF this] incompleteWorker_None[of "Workers config"]
  show "ClusterName config \<noteq> [] \<and> KubernetesVersion config \<noteq> [] \<and> EtcdVersion config \<noteq> []
      \<and> ContainerdVersion config \<noteq> [] \<and> CNIVersion config \<noteq> [] \<and> CoreDNSVersion config \<noteq> []
      \<and> ClusterPodCIDR config \<noteq> [] \<and> ServiceCIDR config \<noteq> [] \<and> ClusterDNS config \<noteq> []
      \<and> WorkDir config \<noteq> [] \<and> SSHKey config \<noteq> [] \<and> SSHUser config \<noteq> []
      \<and> IPAddress (Controller config) \<noteq> [] \<and> Name (Controller config) \<noteq> []
      \<and> Workers config \<noteq> []
      \<and> (\<forall>worker\<in>set (Workers config).
            IPAddress worker \<noteq> [] \<and> Name worker \<noteq> [] \<and> PodCIDR worker \<noteq> [])
      \<and> Country (Certificates config) \<noteq> [] \<and> 0 < ValidityDays (Certificates config)"
    by blast
next
  assume "callE rt (ReadFile configPath) w = (Inr data, w1) \<and> Unmarshal rt data = Inr unnamed
        \<and> ClusterName unnamed = []"
  then show "LoadClusterConfig rt configPath w = (Inl ''cluster_name is required'', w1)"
    unfolding LoadClusterConfig_def bindE_def mapErr_def failE_def validate_def
    by simp
qed

theorem LoadClusterConfig_checks_witness:
  "fst (LoadClusterConfig mockRuntime ''cluster.yaml'' (fresh 0)) = Inr testConfig
   \<and> ClusterName testConfig \<noteq> []
   \<and> Workers testConfig \<noteq> []
   \<and> 0 < ValidityDays (Certificates testConfig)
   \<and> fst (LoadClusterConfig
            (mockRuntime\<lparr>Unmarshal := \<lambda>data. Inr (testConfig\<lparr>ClusterName := []\<rparr>)\<rparr>)
            ''cluster.yaml'' (fresh 0)) = Inl ''cluster_name is required''"
proof -
  let ?w1 = "snd (LoadClusterConfig mockRuntime ''cluster.yaml'' (fresh 0))"
  have run: "LoadClusterConfig mockRuntime ''cluster.yaml'' (fresh 0) = (Inr testConfig, ?w1)"
    by (simp add: LoadClusterConfig_def validate_def run_defs mock_defs prod_eq_iff)
  let ?rt = "mockRuntime\<lparr>Unmarshal := \<lambda>data. Inr (testConfig\<lparr>ClusterName := []\<rparr>)\<rparr>"
  let ?w2 = "snd (callE ?rt (ReadFile ''cluster.yaml'') (fresh 0))"
  have read: "callE ?rt (ReadFile ''cluster.yaml'') (fresh 0) = (Inr [], ?w2)"
    by (simp add: run_defs mock_defs prod_eq_iff)
  have un: "Unmarshal ?rt [] = Inr (testConfig\<lparr>ClusterName := []\<rparr>)"
    by simp
  have empty: "ClusterName (testConfig\<lparr>ClusterName := []\<rparr>) = []"
    by simp
  note checked = LoadClusterConfig_checks[where rt = mockRuntime and w = "fresh 0"
      and configPath = "''cluster.yaml''" and config = testConfig and w' = ?w1,
      THEN conjunct1, rule_format, OF run]
  note rejected = LoadClusterConfig_checks[where rt = ?rt and w = "fresh 0"
      and configPath = "''cluster.yaml''" and data = "[]" and ?w1.0 = ?w2
      and unnamed = "testConfig\<lparr>ClusterName := []\<rparr>",
      THEN conjunct2, rule_format, OF conjI[OF read conjI[OF un empty]]]
  have accepted: "fst (LoadClusterConfig mockRuntime ''cluster.yaml'' (fresh 0)) = Inr testConfig"
    using arg_cong[OF run, of fst] by simp
  have refused: "fst (LoadClusterConfig ?rt ''cluster.yaml'' (fresh 0))
      = Inl ''cluster_name is required''"
    using arg_cong[OF rejected, of fst] by simp
  from checked accepted refused show ?thesis by blast
qed

theorem LoadClusterConfig_accepts_shared_nodes:
  "fst (LoadClusterConfig (mockRuntime\<lparr>Unmarshal := \<lambda>data. Inr sharedConfig\<rparr>)
          ''cluster.yaml'' (fresh 0)) = Inr sharedConfig
   \<and> \<not> nodesDistinct sharedConfig"
  by (simp add: LoadClusterConfig_def validate_def run_defs mock_defs sharedConfig_def
        nodesDistinct_def)

section \<open>PKI phase\<close>

lemma emits_generateCertificates:
  "emits isPKI (generateCertificates rt config ctx workDir)
     (GenerateCA workDir (Certificates config)
      # map (\<lambda>name. GenerateClientCert workDir name (Certificates config)) (clientCerts config)
      @ [GenerateServerCert workDir ''kubernetes'' (serverHosts config) (Certificates config)])"
proof -
  have loop: "emits isPKI (forE (clientCerts config) (\<lambda>name.
         attempt (wrap (''failed to generate client certificate for '' @ name))
           (callE rt (GenerateClientCert workDir name (Certificates config)))))
       (concat (map (\<lambda>name. [GenerateClientCert workDir name (Certificates config)])
          (clientCerts config)))"
    by (rule emits_forE, rule emits_attempt, rule emits_eq, rule emits_callE)
       (simp add: isPKI_def)
  show ?thesis
    unfolding generateCertificates_def logInfo_def
    by (rule emits_eq,
        (rule emits_seqE_Cons emits_seqE_Nil emits_attempt emits_callE emits_tell loop)+)
       (simp add: isPKI_def concat_singletons)
qed

text \<open>
  C1. When \<open>generateCertificates\<close> returns without error, the calls it has made to
  the certificate manager are, in this order: the CA; a client certificate for each
  of \<open>admin\<close>, \<open>kube-controller-manager\<close>, \<open>kube-proxy\<close>, \<open>kube-scheduler\<close>,
  \<open>service-account\<close> and then for each configured worker, by name; and the server
  certificate \<open>kubernetes\<close> whose hosts are \<open>127.0.0.1\<close>, \<open>10.32.0.1\<close>, the
  controller's address, the controller's hostname, \<open>kubernetes\<close>,
  \<open>kubernetes.default\<close>, \<open>kubernetes.default.svc\<close>,
  \<open>kubernetes.default.svc.cluster\<close> and \<open>kubernetes.default.svc.cluster.local\<close>.
\<close>

theorem generateCertificates_issues:
  assumes "generateCertificates rt config ctx workDir w = (Inr u, w')"
  shows "calls isPKI (trace w') = calls isPKI (trace w)
     @ [GenerateCA workDir (Certificates config)]
     @ map (\<lambda>name. GenerateClientCert workDir name (Certificates config))
         ([''admin'', ''kube-controller-manager'', ''kube-proxy'', ''kube-scheduler'',
           ''service-account''] @ map Name (Workers config))
     @ [GenerateServerCert workDir ''kubernetes''
          [''127.0.0.1'', ''10.32.0.1'', IPAddress (Controller config),
           Hostname (Controller config), ''kubernetes'', ''kubernetes.default'',
           ''kubernetes.default.svc'', ''kubernetes.default.svc.cluster'',
           ''kubernetes.default.svc.cluster.local'']
          (Certificates config)]"
  using emits_success[OF emits_generateCertificates assms]
  by (simp add: clientCerts_def serverHosts_def)

theorem generateCertificates_issues_witness:
  "fst (generateCertificates mockRuntime testConfig Background ''/tmp/test-k8s'' (fresh 0)) = Inr ()
   \<and> calls isPKI (trace (snd (generateCertificates mockRuntime testConfig Background
         ''/tmp/test-k8s'' (fresh 0))))
     = [GenerateCA ''/tmp/test-k8s'' (Certificates testConfig),
        GenerateClientCert ''/tmp/test-k8s'' ''admin'' (Certificates testConfig),
        GenerateClientCert ''/tmp/test-k8s'' ''kube-controller-manager'' (Certificates testConfig),
        GenerateClientCert ''/tmp/test-k8s'' ''kube-proxy'' (Certificates testConfig),
        GenerateClientCert ''/tmp/test-k8s'' ''kube-scheduler'' (Certificates testConfig),
        GenerateClientCert ''/tmp/test-k8s'' ''service-account'' (Certificates testConfig),
        GenerateClientCert ''/tmp/test-k8s'' ''worker-0'' (Certificates testConfig),
        GenerateClientCert ''/tmp/test-k8s'' ''worker-1'' (Certificates testConfig),
        GenerateServerCert ''/tmp/test-k8s'' ''kubernetes''
          [''127.0.0.1'', ''10.32.0.1'', ''10.240.0.10'', ''controller-0'', ''kubernetes'',
           ''kubernetes.default'', ''kubernetes.default.svc'', ''kubernetes.default.svc.cluster'',
           ''kubernetes.default.svc.cluster.local'']
          (Certificates testConfig)]"
proof -
  let ?run = "generateCertificates mockRuntime testConfig Background ''/tmp/test-k8s'' (fresh 0)"
  have ok: "fst ?run = Inr ()"
    by (simp add: generateCertificates_def clientCerts_def serverHosts_def run_defs mock_defs)
  then have run: "?run = (Inr (), snd ?run)"
    by (simp add: prod_eq_iff)
  have start: "calls isPKI (trace (fresh 0)) = []"
    by (simp add: fresh_def calls_def)
  have cfg: "Workers testConfig = [
      \<lparr>Name = ''worker-0'', IPAddress = ''10.240.0.20'', Hostname = ''worker-0'',
        PodCIDR = ''10.200.0.0/24''\<rparr>,
      \<lparr>Name = ''worker-1'', IPAddress = ''10.240.0.21'', Hostname = ''worker-1'',
        PodCIDR = ''10.200.1.0/24''\<rparr>]"
    "IPAddress (Controller testConfig) = ''10.240.0.10''"
    "Hostname (Controller testConfig) = ''controller-0''"
    by (simp_all add: testConfig_def)
  from generateCertificates_issues[OF run] ok show ?thesis
    by (simp add: start cfg)
qed

section \<open>Network phase\<close>

lemma isRoute_routeCmd [simp]: "isRoute (SSHExec ctx host (routeCmd b))"
  by (simp add: isRoute_def routeCmd_def)

lemma emits_routes_inner:
  "emits isRoute
     (forE ws (\<lambda>otherWorker.
        if Name worker \<noteq> Name otherWorker then
          attempt (wrap (''failed to add route on '' @ Name worker))
            (ExecuteCommand rt ctx (IPAddress worker) (routeCmd otherWorker))
        else returnE ()))
     (map (\<lambda>b. SSHExec ctx (IPAddress worker) (routeCmd b))
        (filter (\<lambda>b. Name worker \<noteq> Name b) ws))"
proof -
  have "emits isRoute
     (forE ws (\<lambda>otherWorker.
        if Name worker \<noteq> Name otherWorker then
          attempt (wrap (''failed to add route on '' @ Name worker))
            (ExecuteCommand rt ctx (IPAddress worker) (routeCmd otherWorker))
        else returnE ()))
     (concat (map (\<lambda>b. if Name worker \<noteq> Name b
                          then [SSHExec ctx (IPAddress worker) (routeCmd b)] else []) ws))"
  proof (rule emits_forE)
    fix b
    show "emits isRoute
       (if Name worker \<noteq> Name b then
          attempt (wrap (''failed to add route on '' @ Name worker))
            (ExecuteCommand rt ctx (IPAddress worker) (routeCmd b))
        else returnE ())
       (if Name worker \<noteq> Name b then [SSHExec ctx (IPAddress worker) (routeCmd b)] else [])"
      using emits_attempt[OF emits_callE[where P = isRoute and rt = rt
            and ev = "SSHExec ctx (IPAddress worker) (routeCmd b)"]]
      by (simp add: ExecuteCommand_def emits_returnE)
  qed
  moreover have "concat (map (\<lambda>b. if Name worker \<noteq> Name b
                          then [SSHExec ctx (IPAddress worker) (routeCmd b)] else []) ws)
      = map (\<lambda>b. SSHExec ctx (IPAddress worker) (routeCmd b))
          (filter (\<lambda>b. Name worker \<noteq> Name b) ws)"
    by (induction ws) auto
  ultimately show ?thesis by simp
qed

lemma emits_setupNetworking:
  "emits isRoute (setupNetworking rt config ctx) (routesOf ctx (Workers config) (Workers config))"
proof -
  have loop: "emits isRoute
      (forE (Workers config) (\<lambda>worker.
         forE (Workers config) (\<lambda>otherWorker.
           if Name worker \<noteq> Name otherWorker then
             attempt (wrap (''failed to add route on '' @ Name worker))
               (ExecuteCommand rt ctx (IPAddress worker) (routeCmd otherWorker))
           else returnE ())))
      (routesOf ctx (Workers config) (Workers config))"
    unfolding routesOf_def by (rule emits_forE) (rule emits_routes_inner)
  show ?thesis
    unfolding setupNetworking_def Let_def logInfo_def ExecuteCommand_def CopyContent_def
    by (rule emits_eq,
        (rule emits_seqE_Cons emits_seqE_Nil emits_attempt emits_mapErr emits_bindE
              emits_returnE emits_callE emits_tell loop[unfolded ExecuteCommand_def])+)
       (simp add: isRoute_def adminKubeconfig_def)
qed

lemma routesOf_hosts:
  "ev \<in> set (take k (routesOf ctx as ws)) \<Longrightarrow> \<exists>a\<in>set as. execHost ev = Some (IPAddress a)"
  by (auto simp: routesOf_def execHost_def dest!: in_set_takeD) blast

text \<open>
  C4 (as amended). When \<open>setupNetworking\<close> returns without error it has run, for
  every worker \<open>a\<close> in order and every worker \<open>b\<close> in order whose name differs from
  the name of \<open>a\<close>, the command \<open>sudo ip route add <b.podCIDR> via <b.IP> || true\<close> on
  the address of \<open>a\<close>, and no other route command. In any run, finished or aborted,
  every route command goes to the address of a worker; the controller receives one
  exactly when it shares its address with a worker.
\<close>

theorem setupNetworking_routes:
  "(setupNetworking rt config ctx w = (Inr u, w') \<longrightarrow>
      calls isRoute (trace w') = calls isRoute (trace w)
        @ concat (map (\<lambda>a. map (\<lambda>b. SSHExec ctx (IPAddress a)
                                (''sudo ip route add '' @ PodCIDR b @ '' via '' @ IPAddress b
                                   @ '' || true''))
                             (filter (\<lambda>b. Name a \<noteq> Name b) (Workers config)))
                    (Workers config)))
   \<and> (\<forall>ev \<in> set (drop (length (calls isRoute (trace w)))
                     (calls isRoute (trace (snd (setupNetworking rt config ctx w))))).
         \<exists>a\<in>set (Workers config). execHost ev = Some (IPAddress a))"
proof (rule conjI)
  show "setupNetworking rt config ctx w = (Inr u, w') \<longrightarrow>
      calls isRoute (trace w') = calls isRoute (trace w)
        @ concat (map (\<lambda>a. map (\<lambda>b. SSHExec ctx (IPAddress a)
                                (''sudo ip route add '' @ PodCIDR b @ '' via '' @ IPAddress b
                                   @ '' || true''))
                             (filter (\<lambda>b. Name a \<noteq> Name b) (Workers config)))
                    (Workers config))"
    using emits_success[OF emits_setupNetworking, of rt config ctx w u w']
    by (simp add: routesOf_def routeCmd_def)
next
  obtain r w1 where run: "setupNetworking rt config ctx w = (r, w1)"
    by (cases "setupNetworking rt config ctx w")
  from emitsD[OF emits_setupNetworking run] obtain k
    where "calls isRoute (trace w1) = calls isRoute (trace w)
             @ take k (routesOf ctx (Workers config) (Workers config))"
    by blast
  then have "drop (length (calls isRoute (trace w))) (calls isRoute (trace w1))
      = take k (routesOf ctx (Workers config) (Workers config))"
    by simp
  then show "\<forall>ev \<in> set (drop (length (calls isRoute (trace w)))
                     (calls isRoute (trace (snd (setupNetworking rt config ctx w))))).
         \<exists>a\<in>set (Workers config). execHost ev = Some (IPAddress a)"
    using routesOf_hosts run by simp
qed

lemmas network_defs = setupNetworking_def routeCmd_def adminKubeconfig_def calls_def isRoute_def

theorem setupNetworking_routes_witness:
  "fst (setupNetworking mockRuntime testConfig Background (fresh 0)) = Inr ()
   \<and> calls isRoute (trace (snd (setupNetworking mockRuntime testConfig Background (fresh 0))))
     = [SSHExec Background ''10.240.0.20'' ''sudo ip route add 10.200.1.0/24 via 10.240.0.21 || true'',
        SSHExec Background ''10.240.0.21'' ''sudo ip route add 10.200.0.0/24 via 10.240.0.20 || true'']"
proof -
  let ?run = "setupNetworking mockRuntime testConfig Background (fresh 0)"
  have ok: "fst ?run = Inr ()"
    by (simp add: network_defs run_defs mock_defs)
  then have run: "?run = (Inr (), snd ?run)"
    by (simp add: prod_eq_iff)
  have start: "calls isRoute (trace (fresh 0)) = []"
    by (simp add: fresh_def calls_def)
  from setupNetworking_routes[where rt = mockRuntime and config = testConfig
      and ctx = Background and w = "fresh 0" and u = "()" and w' = "snd ?run",
      THEN conjunct1, rule_format, OF run] ok
  show ?thesis
    by (simp add: start testConfig_def Background_def)
qed

theorem setupNetworking_shared_nodes:
  "fst (setupNetworking mockRuntime sharedConfig Background (fresh 0)) = Inr ()
   \<and> IPAddress (Controller sharedConfig) = ''10.240.0.10''
   \<and> SSHExec Background ''10.240.0.10'' ''sudo ip route add 10.200.1.0/24 via 10.240.0.21 || true''
       \<in> set (calls isRoute (trace (snd (setupNetworking mockRuntime sharedConfig Background
                (fresh 0)))))
   \<and> Workers sharedConfig ! 1 \<noteq> Workers sharedConfig ! 2
   \<and> IPAddress (Workers sharedConfig ! 1) = ''10.240.0.21''
   \<and> routeCmd (Workers sharedConfig ! 2) = ''sudo ip route add 10.200.2.0/24 via 10.240.0.22 || true''
   \<and> SSHExec Background ''10.240.0.21'' ''sudo ip route add 10.200.2.0/24 via 10.240.0.22 || true''
       \<notin> set (calls isRoute (trace (snd (setupNetworking mockRuntime sharedConfig Background
                (fresh 0)))))"
  by (simp add: network_defs run_defs mock_defs sharedConfig_def)

section \<open>Teardown\<close>

lemma emits_DestroyCluster:
  "emits isRemote (DestroyCluster rt config ctx)
     (concat (map (\<lambda>node. map (SSHExec ctx (IPAddress node)) cleanupCommands)
        (Controller config # Workers config)))"
proof -
  have inner: "emits isRemote
      (forE cleanupCommands (\<lambda>cmd.
         attempt (wrap (''failed to execute cleanup command '' @ [CHR 0x27] @ cmd @ [CHR 0x27]
                          @ '' on '' @ Name node))
           (callE rt (SSHExec ctx (IPAddress node) cmd))))
      (map (SSHExec ctx (IPAddress node)) cleanupCommands)" for node
  proof -
    have "emits isRemote
      (forE cleanupCommands (\<lambda>cmd.
         attempt (wrap (''failed to execute cleanup command '' @ [CHR 0x27] @ cmd @ [CHR 0x27]
                          @ '' on '' @ Name node))
           (callE rt (SSHExec ctx (IPAddress node) cmd))))
      (concat (map (\<lambda>cmd. [SSHExec ctx (IPAddress node) cmd]) cleanupCommands))"
      by (rule emits_forE, rule emits_attempt, rule emits_eq, rule emits_callE)
         (simp add: isRemote_def)
    then show ?thesis by (simp add: concat_singletons)
  qed
  have node: "emits isRemote
      (seqE [tell rt (LogInfo (''Cleaning up node: '' @ Name node)),
             forE cleanupCommands (\<lambda>cmd.
               attempt (wrap (''failed to execute cleanup command '' @ [CHR 0x27] @ cmd
                                @ [CHR 0x27] @ '' on '' @ Name node))
                 (callE rt (SSHExec ctx (IPAddress node) cmd)))])
      (map (SSHExec ctx (IPAddress node)) cleanupCommands)" for node
    by (rule emits_eq, (rule emits_seqE_Cons emits_seqE_Nil emits_tell inner)+)
       (simp add: isRemote_def)
  have loop: "emits isRemote
      (forE (Controller config # Workers config) (\<lambda>node.
         seqE [tell rt (LogInfo (''Cleaning up node: '' @ Name node)),
               forE cleanupCommands (\<lambda>cmd.
                 attempt (wrap (''failed to execute cleanup command '' @ [CHR 0x27] @ cmd
                                  @ [CHR 0x27] @ '' on '' @ Name node))
                   (callE rt (SSHExec ctx (IPAddress node) cmd)))]))
      (concat (map (\<lambda>node. map (SSHExec ctx (IPAddress node)) cleanupCommands)
         (Controller config # Workers config)))"
    by (rule emits_forE) (rule node)
  show ?thesis
    unfolding DestroyCluster_def logInfo_def ExecuteCommand_def
    by (rule emits_eq,
        (rule emits_seqE_Cons emits_seqE_Nil emits_attempt emits_callE emits_tell loop)+)
       (simp add: isRemote_def)
qed

text \<open>
  C5 (as amended). When \<open>DestroyCluster\<close> returns without error, the remote commands
  it has issued are, for the controller and then for every worker in order, these
  seven: stop the seven units, disable them, remove the directories, remove the
  binaries, remove the unit files, \<open>daemon-reload\<close>, \<open>reset-failed\<close>. The first two
  end with \<open>|| true\<close>; the other five do not.
\<close>

theorem DestroyCluster_commands:
  "(DestroyCluster rt config ctx w = (Inr u, w') \<longrightarrow>
      calls isRemote (trace w') = calls isRemote (trace w)
        @ concat (map (\<lambda>node. map (SSHExec ctx (IPAddress node))
           [''sudo systemctl stop etcd kube-apiserver kube-controller-manager kube-scheduler containerd kubelet kube-proxy || true'',
            ''sudo systemctl disable etcd kube-apiserver kube-controller-manager kube-scheduler containerd kubelet kube-proxy || true'',
            ''sudo rm -rf /etc/etcd /var/lib/etcd /etc/kubernetes /var/lib/kubernetes /var/lib/kubelet /var/lib/kube-proxy /etc/cni /opt/cni /var/run/kubernetes'',
            ''sudo rm -f /usr/local/bin/etcd* /usr/local/bin/kube* /usr/local/bin/runc /bin/containerd*'',
            ''sudo rm -f /etc/systemd/system/etcd.service /etc/systemd/system/kube*.service /etc/systemd/system/containerd.service'',
            ''sudo systemctl daemon-reload'',
            ''sudo systemctl reset-failed''])
           (Controller config # Workers config)))
   \<and> map (\<lambda>cmd. hasSuffix cmd ''|| true'') cleanupCommands
       = [True, True, False, False, False, False, False]"
proof (rule conjI)
  show "DestroyCluster rt config ctx w = (Inr u, w') \<longrightarrow>
      calls isRemote (trace w') = calls isRemote (trace w)
        @ concat (map (\<lambda>node. map (SSHExec ctx (IPAddress node))
           [''sudo systemctl stop etcd kube-apiserver kube-controller-manager kube-scheduler containerd kubelet kube-proxy || true'',
            ''sudo systemctl disable etcd kube-apiserver kube-controller-manager kube-scheduler containerd kubelet kube-proxy || true'',
            ''sudo rm -rf /etc/etcd /var/lib/etcd /etc/kubernetes /var/lib/kubernetes /var/lib/kubelet /var/lib/kube-proxy /etc/cni /opt/cni /var/run/kubernetes'',
            ''sudo rm -f /usr/local/bin/etcd* /usr/local/bin/kube* /usr/local/bin/runc /bin/containerd*'',
            ''sudo rm -f /etc/systemd/system/etcd.service /etc/systemd/system/kube*.service /etc/systemd/system/containerd.service'',
            ''sudo systemctl daemon-reload'',
            ''sudo systemctl reset-failed''])
           (Controller config # Workers config))"
    using emits_success[OF emits_DestroyCluster, of rt config ctx w u w']
    by (simp add: cleanupCommands_def)
next
  show "map (\<lambda>cmd. hasSuffix cmd ''|| true'') cleanupCommands
       = [True, True, False, False, False, False, False]"
    by (simp add: cleanupCommands_def hasSuffix_def)
qed

lemmas destroy_defs = DestroyCluster_def cleanupCommands_def calls_def isRemote_def

theorem DestroyCluster_commands_witness:
  "fst (DestroyCluster mockRuntime (testConfig\<lparr>Workers := []\<rparr>) Background (fresh 0)) = Inr ()
   \<and> calls isRemote (trace (snd (DestroyCluster mockRuntime (testConfig\<lparr>Workers := []\<rparr>)
         Background (fresh 0))))
     = map (SSHExec Background ''10.240.0.10'') cleanupCommands"
proof -
  let ?config = "testConfig\<lparr>Workers := []\<rparr>"
  let ?run = "DestroyCluster mockRuntime ?config Background (fresh 0)"
  have ok: "fst ?run = Inr ()"
    by (simp add: destroy_defs run_defs mock_defs)
  then have run: "?run = (Inr (), snd ?run)"
    by (simp add: prod_eq_iff)
  have start: "calls isRemote (trace (fresh 0)) = []"
    by (simp add: fresh_def calls_def)
  from DestroyCluster_commands[where rt = mockRuntime and config = ?config
      and ctx = Background and w = "fresh 0" and u = "()" and w' = "snd ?run",
      THEN conjunct1, rule_format, OF run] ok
  show ?thesis
    by (simp add: start testConfig_def cleanupCommands_def)
qed

theorem DestroyCluster_unsuffixed_command:
  "SSHExec Background ''10.240.0.10'' ''sudo systemctl daemon-reload''
     \<in> set (calls isRemote (trace (snd (DestroyCluster mockRuntime testConfig Background
              (fresh 0)))))
   \<and> \<not> hasSuffix ''sudo systemctl daemon-reload'' ''|| true''"
  by (simp add: destroy_defs run_defs mock_defs hasSuffix_def)

section \<open>Prerequisites\<close>

lemma bindE_Inl: "f w = (Inl e, w1) \<Longrightarrow> bindE f g w = (Inl e, w1)"
  by (simp add: bindE_def)

lemma bindE_Inr: "f w = (Inr x, w1) \<Longrightarrow> bindE f g w = g x w1"
  by (simp add: bindE_def)

lemma seqE_second_fails:
  "p1 w = (Inr (), w0) \<Longrightarrow> p2 w0 = (Inl e, w1) \<Longrightarrow> seqE (p1 # p2 # ps) w = (Inl e, w1)"
  by (simp add: bindE_def)

lemma probe_fails:
  assumes "\<forall>history. \<exists>e dt. respond rt history (SSHExec Background host sshTest) = (Failed e, dt)"
  shows "\<exists>e. fst (attempt (wrap prefix) (ExecuteCommand rt Background host sshTest) w)
           = Inl (prefix @ '': '' @ e)"
proof -
  from assms obtain e dt
    where "respond rt (trace w) (SSHExec Background host sshTest) = (Failed e, dt)"
    by blast
  then show ?thesis
    by (simp add: attempt_def bindE_def mapErr_def ExecuteCommand_def callE_def call_def wrap_def)
qed

lemma probe_error_shape:
  assumes "fst (attempt (wrap prefix) (ExecuteCommand rt Background host sshTest) w) = Inl err"
  shows "\<exists>e. err = prefix @ '': '' @ e"
  using assms
  by (auto simp: attempt_def bindE_def mapErr_def ExecuteCommand_def callE_def call_def wrap_def
        returnE_def split: prod.splits reply.splits)

lemma prerequisite_loop_fails:
  assumes "node \<in> set nodes"
    and "\<forall>history. \<exists>e dt.
           respond rt history (SSHExec Background (IPAddress node) sshTest) = (Failed e, dt)"
  shows "\<exists>n\<in>set nodes. \<exists>e.
     fst (forE nodes (\<lambda>node. seqE [
            attempt (wrap (''SSH connection to '' @ Name node @ '' failed''))
              (ExecuteCommand rt Background (IPAddress node) sshTest),
            logInfo rt (''SSH connection verified: '' @ Name node)]) w)
       = Inl (''SSH connection to '' @ Name n @ '' failed: '' @ e)"
  using assms(1)
proof (induction nodes arbitrary: w)
  case Nil
  then show ?case by simp
next
  case (Cons a nodes)
  let ?probe = "\<lambda>node. attempt (wrap (''SSH connection to '' @ Name node @ '' failed''))
              (ExecuteCommand rt Background (IPAddress node) sshTest)"
  let ?body = "\<lambda>node. seqE [?probe node, logInfo rt (''SSH connection verified: '' @ Name node)]"
  obtain r w1 where pa: "?probe a w = (r, w1)" by (cases "?probe a w")
  show ?case
  proof (cases r)
    case (Inl err)
    with pa probe_error_shape[of "''SSH connection to '' @ Name a @ '' failed''" rt "IPAddress a" w err]
    obtain e where "err = (''SSH connection to '' @ Name a @ '' failed'') @ '': '' @ e"
      by auto
    with pa Inl have "fst (forE (a # nodes) ?body w)
        = Inl (''SSH connection to '' @ Name a @ '' failed: '' @ e)"
      by (simp add: bindE_def)
    then show ?thesis by auto
  next
    case (Inr u)
    have "a \<noteq> node"
    proof
      assume "a = node"
      with probe_fails[OF assms(2), of "''SSH connection to '' @ Name node @ '' failed''" w] pa Inr
      show False by simp
    qed
    with Cons.prems have "node \<in> set nodes" by simp
    from Cons.IH[OF this, of "snd (logInfo rt (''SSH connection verified: '' @ Name a) w1)"]
    obtain n e where n: "n \<in> set nodes"
      and "fst (forE nodes ?body (snd (logInfo rt (''SSH connection verified: '' @ Name a) w1)))
           = Inl (''SSH connection to '' @ Name n @ '' failed: '' @ e)"
      by blast
    with pa Inr have "fst (forE (a # nodes) ?body w)
        = Inl (''SSH connection to '' @ Name n @ '' failed: '' @ e)"
      by (simp add: bindE_def logInfo_def tell_def returnE_def split: prod.splits)
    with n show ?thesis by auto
  qed
qed

lemma ValidateK8sPrerequisites_fails:
  assumes "node \<in> set (Controller config # Workers config)"
    and "\<forall>history. \<exists>e dt.
           respond rt history (SSHExec Background (IPAddress node) sshTest) = (Failed e, dt)"
  shows "\<exists>n\<in>set (Controller config # Workers config). \<exists>e.
     fst (ValidateK8sPrerequisites rt config w)
       = Inl (''SSH connection to '' @ Name n @ '' failed: '' @ e)"
proof -
  let ?loop = "forE (Controller config # Workers config) (\<lambda>node. seqE [
            attempt (wrap (''SSH connection to '' @ Name node @ '' failed''))
              (ExecuteCommand rt Background (IPAddress node) sshTest),
            logInfo rt (''SSH connection verified: '' @ Name node)])"
  obtain w0 where log: "logInfo rt ''Checking prerequisites...'' w = (Inr (), w0)"
    by (simp add: logInfo_def tell_def)
  from prerequisite_loop_fails[OF assms, of w0] obtain n e
    where n: "n \<in> set (Controller config # Workers config)"
      and failed: "fst (?loop w0) = Inl (''SSH connection to '' @ Name n @ '' failed: '' @ e)"
    by blast
  obtain w1 where loop: "?loop w0
      = (Inl (''SSH connection to '' @ Name n @ '' failed: '' @ e), w1)"
    using failed by (cases "?loop w0") (simp del: forE.simps)
  have "ValidateK8sPrerequisites rt config w
      = (Inl (''SSH connection to '' @ Name n @ '' failed: '' @ e), w1)"
    unfolding ValidateK8sPrerequisites_def
    by (rule seqE_second_fails) (rule log, rule loop)
  then have "fst (ValidateK8sPrerequisites rt config w)
      = Inl (''SSH connection to '' @ Name n @ '' failed: '' @ e)"
    by simp
  with n show ?thesis by blast
qed

lemma createsFile_free [simp]:
  "\<not> createsFile (SSHExec ctx host cmd)" "\<not> createsFile (LogInfo msg)"
  "\<not> createsFile (ReportProgress a b c)" "\<not> createsFile (MkdirAll path mode)"
  by (simp_all add: createsFile_def)

lemma emits_ValidateK8sPrerequisites:
  "emits createsFile (ValidateK8sPrerequisites rt config) []"
proof -
  have body: "emits createsFile (seqE [
         attempt (wrap (''SSH connection to '' @ Name node @ '' failed''))
           (callE rt (SSHExec Background (IPAddress node) sshTest)),
         tell rt (LogInfo (''SSH connection verified: '' @ Name node))]) []" for node :: Node
    by (rule emits_eq, (rule emits_seqE_Cons emits_seqE_Nil emits_attempt emits_callE emits_tell)+)
       simp
  have loop: "emits createsFile (forE (Controller config # Workers config) (\<lambda>node. seqE [
         attempt (wrap (''SSH connection to '' @ Name node @ '' failed''))
           (callE rt (SSHExec Background (IPAddress node) sshTest)),
         tell rt (LogInfo (''SSH connection verified: '' @ Name node))]))
      (concat (map (\<lambda>_. []) (Controller config # Workers config)))"
    by (rule emits_forE) (rule body)
  show ?thesis
    unfolding ValidateK8sPrerequisites_def logInfo_def ExecuteCommand_def
    by (rule emits_eq,
        (rule emits_seqE_Cons emits_seqE_Nil emits_attempt emits_callE emits_tell loop)+)
       simp
qed

text \<open>
  C6. If the transport answers the connectivity probe \<open>echo 'SSH test'\<close> of some node
  (controller or worker) with an error whenever it is asked, then \<open>SetupCluster\<close>
  returns the error of the Prereq phase, naming a node whose probe failed, and has
  made no call to the certificate manager and written no file: the work directory
  holds no certificate.
\<close>

theorem SetupCluster_unreachable_node:
  assumes "node \<in> set (Controller config # Workers config)"
    and "\<forall>history. \<exists>e dt.
           respond rt history
             (SSHExec Background (IPAddress node) (''echo '' @ [CHR 0x27] @ ''SSH test'' @ [CHR 0x27]))
           = (Failed e, dt)"
  shows "(\<exists>n\<in>set (Controller config # Workers config). \<exists>e.
            fst (SetupCluster rt config ctx w)
              = Inl (''prerequisites check failed: SSH connection to '' @ Name n
                       @ '' failed: '' @ e))
     \<and> calls createsFile (trace (snd (SetupCluster rt config ctx w)))
         = calls createsFile (trace w)"
proof -
  obtain w0 where w0: "reportProgress rt 1 6 ''Checking Prerequisites'' w = (Inr (), w0)"
    by (simp add: reportProgress_def tell_def)
  from assms(2) have fails: "\<forall>history. \<exists>e dt.
      respond rt history (SSHExec Background (IPAddress node) sshTest) = (Failed e, dt)"
    by (simp add: sshTest_def)
  from ValidateK8sPrerequisites_fails[OF assms(1) fails, of w0] obtain n e
    where n: "n \<in> set (Controller config # Workers config)"
      and err: "fst (ValidateK8sPrerequisites rt config w0)
                  = Inl (''SSH connection to '' @ Name n @ '' failed: '' @ e)"
    by blast
  obtain w1 where pre: "ValidateK8sPrerequisites rt config w0
       = (Inl (''SSH connection to '' @ Name n @ '' failed: '' @ e), w1)"
    using err by (cases "ValidateK8sPrerequisites rt config w0") simp
  have mapped: "mapErr (wrap ''prerequisites check failed'') (ValidateK8sPrerequisites rt config) w0
      = (Inl (''prerequisites check failed: SSH connection to '' @ Name n @ '' failed: '' @ e), w1)"
    by (simp add: mapErr_def pre wrap_def)
  have result: "SetupCluster rt config ctx w
      = (Inl (''prerequisites check failed: SSH connection to '' @ Name n @ '' failed: '' @ e), w1)"
    unfolding SetupCluster_def Let_def
    by (rule seqE_second_fails) (rule w0, rule mapped)
  from emitsD[OF emits_tell[where P = createsFile], of rt "ReportProgress 1 6 ''Checking Prerequisites''"
      w "Inr ()" w0] w0
  have "calls createsFile (trace w0) = calls createsFile (trace w)"
    by (simp add: reportProgress_def)
  moreover from emitsD[OF emits_ValidateK8sPrerequisites pre]
  have "calls createsFile (trace w1) = calls createsFile (trace w0)"
    by simp
  ultimately have "calls createsFile (trace (snd (SetupCluster rt config ctx w)))
      = calls createsFile (trace w)"
    by (simp add: result)
  moreover have "fst (SetupCluster rt config ctx w)
      = Inl (''prerequisites check failed: SSH connection to '' @ Name n @ '' failed: '' @ e)"
    by (simp add: result)
  ultimately show ?thesis using n by blast
qed

lemmas setup_prefix_defs = SetupCluster_def ValidateK8sPrerequisites_def sshTest_def
  unreachableRuntime_def calls_def createsFile_def

theorem SetupCluster_unreachable_node_witness:
  "fst (SetupCluster unreachableRuntime testConfig Background (fresh 0))
     = Inl ''prerequisites check failed: SSH connection to worker-1 failed: connection refused''
   \<and> calls createsFile (trace (snd (SetupCluster unreachableRuntime testConfig Background (fresh 0))))
     = []"
proof -
  let ?node = "\<lparr>Name = ''worker-1'', IPAddress = ''10.240.0.21'', Hostname = ''worker-1'',
                 PodCIDR = ''10.200.1.0/24''\<rparr>"
  have mem: "?node \<in> set (Controller testConfig # Workers testConfig)"
    by (simp add: testConfig_def)
  have fails: "\<forall>history. \<exists>e dt.
      respond unreachableRuntime history
        (SSHExec Background (IPAddress ?node) (''echo '' @ [CHR 0x27] @ ''SSH test'' @ [CHR 0x27]))
      = (Failed e, dt)"
    by (simp add: unreachableRuntime_def sshTest_def)
  have start: "calls createsFile (trace (fresh 0)) = []"
    by (simp add: fresh_def calls_def)
  have result: "fst (SetupCluster unreachableRuntime testConfig Background (fresh 0))
     = Inl ''prerequisites check failed: SSH connection to worker-1 failed: connection refused''"
    by (simp add: setup_prefix_defs run_defs mock_defs wrap_def)
  from SetupCluster_unreachable_node[OF mem fails, of Background "fresh 0"] result start
  show ?thesis by simp
qed

section \<open>Configuration phase: kubeconfigs\<close>

lemma isKubeconfig_kubeconfig [simp]:
  "isKubeconfig (WriteFile path (textLines (kubeconfigLines workDir ip clusterName name)) mode)"
  by (simp add: isKubeconfig_def textLines_def kubeconfigLines_def)

lemma isKubeconfig_encryption [simp]:
  "\<not> isKubeconfig (WriteFile path (textLines (encryptionConfigLines key)) mode)"
  by (simp add: isKubeconfig_def textLines_def encryptionConfigLines_def)

lemma isKubeconfig_other [simp]:
  "\<not> isKubeconfig (RandRead n)" "\<not> isKubeconfig (LogInfo msg)"
  by (simp_all add: isKubeconfig_def)

lemma emits_writeFile:
  "emits P (writeFile rt path content)
     (if P (WriteFile path content 420) then [WriteFile path content 420] else [])"
  unfolding writeFile_def
  by (rule emits_eq, rule emits_bindE, rule emits_callE, rule emits_returnE) simp

lemma emits_generateEncryptionConfig:
  "emits isKubeconfig (generateEncryptionConfig rt workDir) []"
proof -
  have written: "emits isKubeconfig
      (writeFile rt (Join rt workDir ''encryption-config.yaml'')
         (textLines (encryptionConfigLines (EncodeToString (fillBuffer 32 bytes))))) []" for bytes
    by (rule emits_eq, rule emits_writeFile) simp
  have "emits isKubeconfig (generateEncryptionConfig rt workDir)
      ((if isKubeconfig (RandRead 32) then [RandRead 32] else []) @ [])"
    unfolding generateEncryptionConfig_def Let_def
    by (rule emits_bindE, rule emits_mapErr, rule emits_callE, rule written)
  then show ?thesis by simp
qed

lemma emits_generateKubeconfig:
  "emits isKubeconfig (generateKubeconfig rt config workDir name ip)
     [WriteFile (Join rt workDir (name @ ''.kubeconfig''))
        (textLines (kubeconfigLines workDir
           (if ip \<noteq> [] then ip else IPAddress (Controller config)) (ClusterName config) name))
        420]"
  unfolding generateKubeconfig_def Let_def writeFile_def
  by (rule emits_eq,
      (rule emits_bindE emits_mapErr emits_callE emits_returnE)+) simp

lemma emits_createConfigurations:
  "emits isKubeconfig (createConfigurations rt config ctx workDir)
     (map (\<lambda>worker. WriteFile (Join rt workDir (Name worker @ ''.kubeconfig''))
             (textLines (kubeconfigLines workDir
                (if IPAddress worker \<noteq> [] then IPAddress worker
                 else IPAddress (Controller config))
                (ClusterName config) (Name worker))) 420)
        (Workers config)
      @ map (\<lambda>name. WriteFile (Join rt workDir (name @ ''.kubeconfig''))
             (textLines (kubeconfigLines workDir (IPAddress (Controller config))
                (ClusterName config) name)) 420)
          [''kube-proxy'', ''kube-controller-manager'', ''kube-scheduler'', ''admin''])"
proof -
  have workers: "emits isKubeconfig
      (forE (Workers config) (\<lambda>worker.
         mapErr (wrap (''failed to generate kubeconfig for '' @ Name worker))
           (generateKubeconfig rt config workDir (Name worker) (IPAddress worker))))
      (concat (map (\<lambda>worker. [WriteFile (Join rt workDir (Name worker @ ''.kubeconfig''))
             (textLines (kubeconfigLines workDir
                (if IPAddress worker \<noteq> [] then IPAddress worker
                 else IPAddress (Controller config))
                (ClusterName config) (Name worker))) 420]) (Workers config)))"
    by (rule emits_forE, rule emits_mapErr, rule emits_generateKubeconfig)
  have principal: "emits isKubeconfig
      (let ip = (if name = ''kube-controller-manager'' \<or> name = ''kube-scheduler''
                      \<or> name = ''admin''
                 then IPAddress (Controller config) else [])
       in mapErr (wrap (''failed to generate kubeconfig for '' @ name))
            (generateKubeconfig rt config workDir name ip))
      [WriteFile (Join rt workDir (name @ ''.kubeconfig''))
             (textLines (kubeconfigLines workDir (IPAddress (Controller config))
                (ClusterName config) name)) 420]" for name
    unfolding Let_def
    by (rule emits_eq, rule emits_mapErr, rule emits_generateKubeconfig) simp
  have principals: "emits isKubeconfig
      (forE [''kube-proxy'', ''kube-controller-manager'', ''kube-scheduler'', ''admin''] (\<lambda>name.
         let ip = (if name = ''kube-controller-manager'' \<or> name = ''kube-scheduler''
                      \<or> name = ''admin''
                   then IPAddress (Controller config) else [])
         in mapErr (wrap (''failed to generate kubeconfig for '' @ name))
              (generateKubeconfig rt config workDir name ip)))
      (concat (map (\<lambda>name. [WriteFile (Join rt workDir (name @ ''.kubeconfig''))
             (textLines (kubeconfigLines workDir (IPAddress (Controller config))
                (ClusterName config) name)) 420])
          [''kube-proxy'', ''kube-controller-manager'', ''kube-scheduler'', ''admin'']))"
    by (rule emits_forE) (rule principal)
  show ?thesis
    unfolding createConfigurations_def logInfo_def
    by (rule emits_eq,
        (rule emits_seqE_Cons emits_seqE_Nil emits_mapErr emits_tell
              emits_generateEncryptionConfig workers principals)+)
       (simp add: concat_singletons del: forE.simps)
qed

text \<open>
  C7. When \<open>createConfigurations\<close> returns without error for a configuration whose
  workers all have an address (as every loaded configuration has), the kubeconfigs
  it has written are, in order: one per worker, named after the worker, whose
  server line is \<open>https://<that worker's IP>:6443\<close>; then those of \<open>kube-proxy\<close>,
  \<open>kube-controller-manager\<close>, \<open>kube-scheduler\<close> and \<open>admin\<close>, whose server line is
  \<open>https://<controller IP>:6443\<close>. The server line is the fifth line of the file.
\<close>

theorem createConfigurations_kubeconfigs:
  assumes "createConfigurations rt config ctx workDir w = (Inr u, w')"
    and "\<forall>worker\<in>set (Workers config). IPAddress worker \<noteq> []"
  shows "calls isKubeconfig (trace w') = calls isKubeconfig (trace w)
     @ map (\<lambda>worker. WriteFile (Join rt workDir (Name worker @ ''.kubeconfig''))
             (textLines (kubeconfigLines workDir (IPAddress worker) (ClusterName config)
                (Name worker))) 420)
         (Workers config)
     @ map (\<lambda>name. WriteFile (Join rt workDir (name @ ''.kubeconfig''))
             (textLines (kubeconfigLines workDir (IPAddress (Controller config))
                (ClusterName config) name)) 420)
         [''kube-proxy'', ''kube-controller-manager'', ''kube-scheduler'', ''admin'']
   \<and> (\<forall>ip name. kubeconfigLines workDir ip (ClusterName config) name ! 4
         = ''    server: https://'' @ ip @ '':6443'')"
proof -
  from assms(2) have "map (\<lambda>worker. WriteFile (Join rt workDir (Name worker @ ''.kubeconfig''))
             (textLines (kubeconfigLines workDir
                (if IPAddress worker \<noteq> [] then IPAddress worker
                 else IPAddress (Controller config))
                (ClusterName config) (Name worker))) 420) (Workers config)
    = map (\<lambda>worker. WriteFile (Join rt workDir (Name worker @ ''.kubeconfig''))
             (textLines (kubeconfigLines workDir (IPAddress worker) (ClusterName config)
                (Name worker))) 420) (Workers config)"
    by simp
  with emits_success[OF emits_createConfigurations assms(1)]
  show ?thesis by (simp add: kubeconfigLines_def)
qed

lemmas config_defs = createConfigurations_def generateEncryptionConfig_def
  generateKubeconfig_def calls_def isKubeconfig_def textLines_def

theorem createConfigurations_kubeconfigs_witness:
  "fst (createConfigurations mockRuntime testConfig Background ''/tmp/test-k8s'' (fresh 0)) = Inr ()
   \<and> map (\<lambda>ev. case ev of WriteFile path content mode \<Rightarrow> (path, take 121 content) | _ \<Rightarrow> ([], []))
       (calls isKubeconfig (trace (snd (createConfigurations mockRuntime testConfig Background
          ''/tmp/test-k8s'' (fresh 0)))))
     = map (\<lambda>(name, ip). (''/tmp/test-k8s/'' @ name @ ''.kubeconfig'',
              textLines [''apiVersion: v1'', ''clusters:'', ''- cluster:'',
                ''    certificate-authority: /tmp/test-k8s/ca.pem'',
                ''    server: https://'' @ ip @ '':6443'']))
         [(''worker-0'', ''10.240.0.20''), (''worker-1'', ''10.240.0.21''),
          (''kube-proxy'', ''10.240.0.10''), (''kube-controller-manager'', ''10.240.0.10''),
          (''kube-scheduler'', ''10.240.0.10''), (''admin'', ''10.240.0.10'')]"
proof -
  let ?run = "createConfigurations mockRuntime testConfig Background ''/tmp/test-k8s'' (fresh 0)"
  have ok: "fst ?run = Inr ()"
    by (simp add: config_defs run_defs mock_defs)
  then obtain w' where run: "?run = (Inr (), w')"
    by (cases ?run) simp
  have addressed: "\<forall>worker\<in>set (Workers testConfig). IPAddress worker \<noteq> []"
    by (simp add: testConfig_def)
  have start: "calls isKubeconfig (trace (fresh 0)) = []"
    by (simp add: fresh_def calls_def)
  have w': "snd ?run = w'"
    using run by simp
  have written: "calls isKubeconfig (trace (snd ?run))
     = map (\<lambda>worker. WriteFile (Join mockRuntime ''/tmp/test-k8s'' (Name worker @ ''.kubeconfig''))
             (textLines (kubeconfigLines ''/tmp/test-k8s'' (IPAddress worker) (ClusterName testConfig)
                (Name worker))) 420)
         (Workers testConfig)
     @ map (\<lambda>name. WriteFile (Join mockRuntime ''/tmp/test-k8s'' (name @ ''.kubeconfig''))
             (textLines (kubeconfigLines ''/tmp/test-k8s'' (IPAddress (Controller testConfig))
                (ClusterName testConfig) name)) 420)
         [''kube-proxy'', ''kube-controller-manager'', ''kube-scheduler'', ''admin'']"
    using createConfigurations_kubeconfigs[OF run addressed, THEN conjunct1]
    by (simp only: w' start append_Nil)
  show ?thesis
    unfolding ok written
    by (simp add: testConfig_def mockRuntime_fields kubeconfigLines_def textLines_def)
qed

section \<open>Configuration phase: the encryption configuration\<close>

lemma length_encodeStd: "length encodeStd = 64"
  by (simp add: encodeStd_def)

lemma distinct_encodeStd: "distinct encodeStd"
  by (simp add: encodeStd_def)

lemma pad_not_in_encodeStd: "CHR ''='' \<notin> set encodeStd"
  by (simp add: encodeStd_def)

lemma takeWhile_neq_nth:
  "distinct xs \<Longrightarrow> i < length xs \<Longrightarrow> takeWhile (\<lambda>x. x \<noteq> xs ! i) xs = take i xs"
proof (induction xs arbitrary: i)
  case Nil
  then show ?case by simp
next
  case (Cons a xs)
  show ?case
  proof (cases i)
    case 0
    then show ?thesis by simp
  next
    case (Suc j)
    with Cons.prems have "j < length xs" "distinct xs" "a \<noteq> xs ! j"
      by auto
    with Cons.IH[of j] Suc show ?thesis by simp
  qed
qed

lemma unsextet_sextet: "i < 64 \<Longrightarrow> unsextet (sextet i) = Some i"
  using takeWhile_neq_nth[OF distinct_encodeStd, of i]
  by (simp add: unsextet_def sextet_def length_encodeStd)

lemma sextet_not_pad: "sextet i \<noteq> CHR ''=''"
proof -
  have "encodeStd ! (i mod 64) \<in> set encodeStd"
    by (rule nth_mem) (simp add: length_encodeStd)
  with pad_not_in_encodeStd show ?thesis
    by (auto simp: sextet_def)
qed

lemma hi16: "d < 16 \<Longrightarrow> (m * 16 + d) div 16 = (m::nat)"
  by simp

lemma lo16: "d < 16 \<Longrightarrow> (m * 16 + d) mod 16 = (d::nat)"
  by simp

lemma hi4: "d < 4 \<Longrightarrow> (m * 4 + d) div 4 = (m::nat)"
  by simp

lemma lo4: "d < 4 \<Longrightarrow> (m * 4 + d) mod 4 = (d::nat)"
  by simp

lemma byte_div16: "(x::nat) < 256 \<Longrightarrow> x div 16 < 16"
  by simp

lemma byte_div64: "(x::nat) < 256 \<Longrightarrow> x div 64 < 4"
  by simp

lemma regroup_bounds:
  fixes x y z :: nat
  assumes "y < 256" "z < 256"
  shows "(x mod 4) * 16 + y div 16 < 64" "(y mod 16) * 4 + z div 64 < 64"
    "(x mod 4) * 16 < 64" "(y mod 16) * 4 < 64"
proof -
  have "x mod 4 < 4" "y mod 16 < 16" by simp_all
  with byte_div16[OF assms(1)] byte_div64[OF assms(2)]
  show "(x mod 4) * 16 + y div 16 < 64" "(y mod 16) * 4 + z div 64 < 64"
    "(x mod 4) * 16 < 64" "(y mod 16) * 4 < 64"
    by linarith+
qed

lemma regroup:
  fixes x y z :: nat
  assumes "x < 256" "y < 256" "z < 256"
  shows "x div 4 < 64" "(x mod 4) * 16 + y div 16 < 64" "(y mod 16) * 4 + z div 64 < 64"
    "z mod 64 < 64" "(x mod 4) * 16 < 64" "(y mod 16) * 4 < 64"
    "x div 4 * 4 + ((x mod 4) * 16 + y div 16) div 16 = x"
    "(((x mod 4) * 16 + y div 16) mod 16) * 16 + ((y mod 16) * 4 + z div 64) div 4 = y"
    "(((y mod 16) * 4 + z div 64) mod 4) * 64 + z mod 64 = z"
    "((x mod 4) * 16) mod 16 = 0" "x div 4 * 4 + ((x mod 4) * 16) div 16 = x"
    "((y mod 16) * 4) mod 4 = 0"
    "(((x mod 4) * 16 + y div 16) mod 16) * 16 + ((y mod 16) * 4) div 4 = y"
  using assms regroup_bounds[OF assms(2,3)]
  by (simp_all add: hi16 lo16 hi4 lo4 byte_div16 byte_div64)

lemma byte_less: "of_char (c :: char) < (256 :: nat)"
  by simp

lemma encoded_group:
  "rest \<noteq> [] \<Longrightarrow> \<exists>p q r s others. EncodeToString rest = p # q # r # s # others"
  by (cases rest rule: EncodeToString.cases) auto

lemma decode_sextets:
  fixes a b c :: char
  defines "x \<equiv> of_char a :: nat" and "y \<equiv> of_char b :: nat" and "z \<equiv> of_char c :: nat"
  shows "unsextet (sextet (x div 4)) = Some (x div 4)"
    "unsextet (sextet ((x mod 4) * 16 + y div 16)) = Some ((x mod 4) * 16 + y div 16)"
    "unsextet (sextet ((y mod 16) * 4 + z div 64)) = Some ((y mod 16) * 4 + z div 64)"
    "unsextet (sextet (z mod 64)) = Some (z mod 64)"
    "unsextet (sextet ((x mod 4) * 16)) = Some ((x mod 4) * 16)"
    "unsextet (sextet ((y mod 16) * 4)) = Some ((y mod 16) * 4)"
proof -
  have "x < 256" "y < 256" "z < 256"
    by (simp_all add: x_def y_def z_def)
  note r = regroup[OF this]
  show "unsextet (sextet (x div 4)) = Some (x div 4)"
    by (rule unsextet_sextet) (rule r)
  show "unsextet (sextet ((x mod 4) * 16 + y div 16)) = Some ((x mod 4) * 16 + y div 16)"
    by (rule unsextet_sextet) (rule r)
  show "unsextet (sextet ((y mod 16) * 4 + z div 64)) = Some ((y mod 16) * 4 + z div 64)"
    by (rule unsextet_sextet) (rule r)
  show "unsextet (sextet (z mod 64)) = Some (z mod 64)"
    by (rule unsextet_sextet) (rule r)
  show "unsextet (sextet ((x mod 4) * 16)) = Some ((x mod 4) * 16)"
    by (rule unsextet_sextet) (rule r)
  show "unsextet (sextet ((y mod 16) * 4)) = Some ((y mod 16) * 4)"
    by (rule unsextet_sextet) (rule r)
qed

lemma decode_bytes:
  fixes a b c :: char
  defines "x \<equiv> of_char a :: nat" and "y \<equiv> of_char b :: nat" and "z \<equiv> of_char c :: nat"
  shows "char_of (x div 4 * 4 + ((x mod 4) * 16 + y div 16) div 16) = a"
    "char_of ((((x mod 4) * 16 + y div 16) mod 16) * 16 + ((y mod 16) * 4 + z div 64) div 4) = b"
    "char_of ((((y mod 16) * 4 + z div 64) mod 4) * 64 + z mod 64) = c"
    "char_of (x div 4 * 4 + ((x mod 4) * 16) div 16) = a"
    "char_of ((((x mod 4) * 16 + y div 16) mod 16) * 16 + ((y mod 16) * 4) div 4) = b"
    "((x mod 4) * 16) mod 16 = 0" "((y mod 16) * 4) mod 4 = 0"
proof -
  have "x < 256" "y < 256" "z < 256"
    by (simp_all add: x_def y_def z_def)
  note r = regroup[OF this]
  have restored: "char_of x = a" "char_of y = b" "char_of z = c"
    by (simp_all add: x_def y_def z_def)
  show "char_of (x div 4 * 4 + ((x mod 4) * 16 + y div 16) div 16) = a"
    by (simp only: r restored)
  show "char_of ((((x mod 4) * 16 + y div 16) mod 16) * 16 + ((y mod 16) * 4 + z div 64) div 4) = b"
    by (simp only: r restored)
  show "char_of ((((y mod 16) * 4 + z div 64) mod 4) * 64 + z mod 64) = c"
    by (simp only: r restored)
  show "char_of (x div 4 * 4 + ((x mod 4) * 16) div 16) = a"
    by (simp only: r restored)
  show "char_of ((((x mod 4) * 16 + y div 16) mod 16) * 16 + ((y mod 16) * 4) div 4) = b"
    by (simp only: r restored)
  show "((x mod 4) * 16) mod 16 = 0" "((y mod 16) * 4) mod 4 = 0"
    by (rule r)+
qed

lemma decode_group:
  "DecodeString ([sextet (of_char a div 4),
                  sextet ((of_char a mod 4) * 16 + of_char b div 16),
                  sextet ((of_char b mod 16) * 4 + of_char c div 64),
                  sextet (of_char c mod 64)] @ p # q # r # s # others)
   = (case DecodeString (p # q # r # s # others) of
        None \<Rightarrow> None | Some bytes \<Rightarrow> Some (a # b # c # bytes))"
  by (simp only: append_Cons append_Nil DecodeString.simps decode_sextets decode_bytes
        prod.case option.case)

lemma decode_last_three:
  "DecodeString [sextet (of_char a div 4),
                 sextet ((of_char a mod 4) * 16 + of_char b div 16),
                 sextet ((of_char b mod 16) * 4 + of_char c div 64),
                 sextet (of_char c mod 64)] = Some [a, b, c]"
  by (simp only: DecodeString.simps decode_sextets decode_bytes prod.case option.case
        sextet_not_pad simp_thms if_False)

lemma decode_last_two:
  "DecodeString [sextet (of_char a div 4),
                 sextet ((of_char a mod 4) * 16 + of_char b div 16),
                 sextet ((of_char b mod 16) * 4),
                 CHR ''=''] = Some [a, b]"
  by (simp only: DecodeString.simps decode_sextets decode_bytes prod.case option.case
        sextet_not_pad simp_thms if_False if_True)

lemma decode_last_one:
  "DecodeString [sextet (of_char a div 4), sextet ((of_char a mod 4) * 16), CHR ''='', CHR ''='']
     = Some [a]"
  by (simp only: DecodeString.simps decode_sextets decode_bytes prod.case option.case
        simp_thms if_True)

lemma DecodeString_EncodeToString: "DecodeString (EncodeToString bytes) = Some bytes"
proof (induction bytes rule: EncodeToString.induct)
  case (1 a b c rest)
  show ?case
  proof (cases "rest = []")
    case True
    then show ?thesis
      by (simp only: EncodeToString.simps append_Nil2 decode_last_three)
  next
    case False
    from encoded_group[OF this] obtain p q r s others
      where enc: "EncodeToString rest = p # q # r # s # others"
      by blast
    with 1 have "DecodeString (p # q # r # s # others) = Some rest"
      by simp
    then show ?thesis
      by (simp only: EncodeToString.simps enc decode_group option.case)
  qed
next
  case (2 a b)
  show ?case by (simp only: EncodeToString.simps decode_last_two)
next
  case (3 a)
  show ?case by (simp only: EncodeToString.simps decode_last_one)
next
  case 4
  show ?case by simp
qed

lemma length_fillBuffer: "length (fillBuffer n bytes) = n"
  by (simp add: fillBuffer_def)

text \<open>
  C8. When \<open>generateEncryptionConfig\<close> returns without error it has read 32 bytes
  from the random source and written one file, \<open>encryption-config.yaml\<close> in the
  work directory with mode 0644: the \<open>EncryptionConfig\<close> for the resource \<open>secrets\<close>
  whose providers are \<open>aescbc\<close> with the single key \<open>key1\<close> and then \<open>identity\<close>. The
  secret of the key is the base64 encoding of the 32-byte buffer that was filled,
  and decodes to these 32 bytes.
\<close>

theorem generateEncryptionConfig_renders:
  assumes "generateEncryptionConfig rt workDir w = (Inr u, w')"
  shows "\<exists>bytes out key.
     key = fillBuffer 32 bytes \<and> length key = 32
     \<and> DecodeString (EncodeToString key) = Some key
     \<and> trace w' = trace w @
         [(RandRead 32, Done bytes),
          (WriteFile (Join rt workDir ''encryption-config.yaml'')
             (textLines
                [''kind: EncryptionConfig'',
                 ''apiVersion: v1'',
                 ''resources:'',
                 ''  - resources:'',
                 ''      - secrets'',
                 ''    providers:'',
                 ''      - aescbc:'',
                 ''          keys:'',
                 ''            - name: key1'',
                 ''              secret: '' @ EncodeToString key,
                 ''      - identity: {}''])
             420, Done out)]"
proof -
  obtain r1 dt1 where read: "respond rt (trace w) (RandRead 32) = (r1, dt1)"
    by (cases "respond rt (trace w) (RandRead 32)")
  from assms read obtain bytes where bytes: "r1 = Done bytes"
    by (cases r1)
       (auto simp: generateEncryptionConfig_def bindE_def mapErr_def callE_def call_def)
  let ?key = "fillBuffer 32 bytes"
  let ?file = "WriteFile (Join rt workDir ''encryption-config.yaml'')
                 (textLines (encryptionConfigLines (EncodeToString ?key))) 420"
  let ?tr1 = "trace w @ [(RandRead 32, Done bytes)]"
  obtain r2 dt2 where written: "respond rt ?tr1 ?file = (r2, dt2)"
    by (cases "respond rt ?tr1 ?file")
  from assms read bytes written obtain out where out: "r2 = Done out"
    by (cases r2)
       (auto simp: generateEncryptionConfig_def writeFile_def bindE_def mapErr_def callE_def
          call_def Let_def)
  from assms read bytes written out
  have "trace w' = trace w @ [(RandRead 32, Done bytes), (?file, Done out)]"
    by (auto simp: generateEncryptionConfig_def writeFile_def bindE_def mapErr_def callE_def
          call_def Let_def returnE_def)
  then show ?thesis
    using length_fillBuffer[of 32 bytes] DecodeString_EncodeToString[of ?key]
    by (auto simp: encryptionConfigLines_def)
qed

lemma encode_mock_key:
  "EncodeToString (replicate 32 (CHR ''k''))
     = ''a2tra2tra2tra2tra2tra2tra2tra2tra2tra2tra2s=''"
  by code_simp

lemma fill_mock_key: "fillBuffer 32 (replicate 32 (CHR ''k'')) = replicate 32 (CHR ''k'')"
  by (simp add: fillBuffer_def)

theorem generateEncryptionConfig_renders_witness:
  "fst (generateEncryptionConfig mockRuntime ''/tmp/test-k8s'' (fresh 0)) = Inr ()
   \<and> trace (snd (generateEncryptionConfig mockRuntime ''/tmp/test-k8s'' (fresh 0)))
        = [(RandRead 32, Done (replicate 32 (CHR ''k''))),
           (WriteFile ''/tmp/test-k8s/encryption-config.yaml''
              (textLines
                 [''kind: EncryptionConfig'',
                  ''apiVersion: v1'',
                  ''resources:'',
                  ''  - resources:'',
                  ''      - secrets'',
                  ''    providers:'',
                  ''      - aescbc:'',
                  ''          keys:'',
                  ''            - name: key1'',
                  ''              secret: a2tra2tra2tra2tra2tra2tra2tra2tra2tra2tra2s='',
                  ''      - identity: {}''])
              420, Done [])]
   \<and> DecodeString ''a2tra2tra2tra2tra2tra2tra2tra2tra2tra2tra2s='' = Some (replicate 32 (CHR ''k''))"
proof -
  let ?run = "generateEncryptionConfig mockRuntime ''/tmp/test-k8s'' (fresh 0)"
  have ok: "fst ?run = Inr ()"
    by (simp add: generateEncryptionConfig_def run_defs mock_defs)
  have eval: "trace (snd ?run)
        = [(RandRead 32, Done (replicate 32 (CHR ''k''))),
           (WriteFile ''/tmp/test-k8s/encryption-config.yaml''
              (textLines (encryptionConfigLines
                 (EncodeToString (fillBuffer 32 (replicate 32 (CHR ''k''))))))
              420, Done [])]"
    by (simp add: generateEncryptionConfig_def run_defs mock_defs)
  from ok obtain w' where run: "?run = (Inr (), w')"
    by (cases ?run) simp
  from generateEncryptionConfig_renders[OF run] obtain bytes out key
    where key: "key = fillBuffer 32 bytes"
      and decoded: "DecodeString (EncodeToString key) = Some key"
      and tr: "trace w' = trace (fresh 0) @
         [(RandRead 32, Done bytes),
          (WriteFile (Join mockRuntime ''/tmp/test-k8s'' ''encryption-config.yaml'')
             (textLines
                [''kind: EncryptionConfig'', ''apiVersion: v1'', ''resources:'',
                 ''  - resources:'', ''      - secrets'', ''    providers:'',
                 ''      - aescbc:'', ''          keys:'', ''            - name: key1'',
                 ''              secret: '' @ EncodeToString key,
                 ''      - identity: {}''])
             420, Done out)]"
    by blast
  have "trace w' = trace (snd ?run)"
    by (simp only: run snd_conv)
  with tr eval have "bytes = replicate 32 (CHR ''k'')"
    by (simp add: fresh_def)
  with key decoded
  have third: "DecodeString ''a2tra2tra2tra2tra2tra2tra2tra2tra2tra2tra2s=''
      = Some (replicate 32 (CHR ''k''))"
    by (simp only: fill_mock_key encode_mock_key)
  have second: "trace (snd ?run)
        = [(RandRead 32, Done (replicate 32 (CHR ''k''))),
           (WriteFile ''/tmp/test-k8s/encryption-config.yaml''
              (textLines
                 [''kind: EncryptionConfig'', ''apiVersion: v1'', ''resources:'',
                  ''  - resources:'', ''      - secrets'', ''    providers:'',
                  ''      - aescbc:'', ''          keys:'', ''            - name: key1'',
                  ''              secret: a2tra2tra2tra2tra2tra2tra2tra2tra2tra2tra2s='',
                  ''      - identity: {}''])
              420, Done [])]"
    unfolding eval fill_mock_key encode_mock_key encryptionConfigLines_def
    by simp
  from ok second third show ?thesis
    by (intro conjI)
qed

section \<open>Health gate\<close>

lemma waitLoop_timeout:
  "\<not> now w < deadline \<Longrightarrow>
   waitLoop rt ctx host serviceName timeout deadline w
     = (Inl (''service '' @ serviceName @ '' did not become healthy within ''
              @ DurationString rt timeout), w)"
  by (subst waitLoop.simps) simp

lemma waitLoop_active:
  "now w < deadline \<Longrightarrow>
   isActive rt (fst (ExecuteCommand rt ctx host (''sudo systemctl is-active '' @ serviceName) w)) \<Longrightarrow>
   waitLoop rt ctx host serviceName timeout deadline w
     = logInfo rt (''Service '' @ serviceName @ '' is healthy'')
         (snd (ExecuteCommand rt ctx host (''sudo systemctl is-active '' @ serviceName) w))"
  by (subst waitLoop.simps) (simp add: Let_def)

lemma waitLoop_retry:
  "now w < deadline \<Longrightarrow>
   \<not> isActive rt (fst (ExecuteCommand rt ctx host (''sudo systemctl is-active '' @ serviceName) w)) \<Longrightarrow>
   waitLoop rt ctx host serviceName timeout deadline w
     = waitLoop rt ctx host serviceName timeout deadline
         (sleep rt (5 * Second)
            (snd (ExecuteCommand rt ctx host (''sudo systemctl is-active '' @ serviceName) w)))"
  by (subst waitLoop.simps) (simp add: Let_def)

lemma probe_world:
  "snd (ExecuteCommand rt ctx host command w) = snd (call rt (SSHExec ctx host command) w)"
  by (simp add: ExecuteCommand_def callE_def split: prod.splits reply.splits)

lemma probe_failed_inactive:
  "respond rt (trace w) (SSHExec ctx host command) = (Failed err, dt) \<Longrightarrow>
   \<not> isActive rt (fst (ExecuteCommand rt ctx host command w))"
  by (simp add: ExecuteCommand_def callE_def call_def isActive_def)

lemma waitLoop_result:
  "fst (waitLoop rt ctx host serviceName timeout deadline w) = Inr ()
   \<or> (fst (waitLoop rt ctx host serviceName timeout deadline w)
         = Inl (''service '' @ serviceName @ '' did not become healthy within ''
                 @ DurationString rt timeout)
       \<and> deadline \<le> now (snd (waitLoop rt ctx host serviceName timeout deadline w)))"
proof (induction rt ctx host serviceName timeout deadline w rule: waitLoop.induct)
  case (1 rt ctx host serviceName timeout deadline w)
  let ?res = "ExecuteCommand rt ctx host (''sudo systemctl is-active '' @ serviceName) w"
  show ?case
  proof (cases "now w < deadline")
    case False
    then show ?thesis by (simp add: waitLoop_timeout)
  next
    case True
    show ?thesis
    proof (cases "isActive rt (fst ?res)")
      case True
      with \<open>now w < deadline\<close> show ?thesis
        by (simp add: waitLoop_active logInfo_def tell_def)
    next
      case False
      from "1.IH"[OF True refl False] waitLoop_retry[OF True False]
      show ?thesis by simp
    qed
  qed
qed

text \<open>
  C10. A probe that the transport answers with an error is not returned: the loop
  sleeps five seconds and polls again, exactly as for an answer other than
  \<open>active\<close>. Hence \<open>waitForService\<close> either returns nil or returns the timeout error
  for the unit, and the latter only once the clock has passed the deadline, the
  time of the call plus the timeout.
\<close>

theorem waitForService_swallows_probe_errors:
  "(now w < deadline
      \<and> respond rt (trace w) (SSHExec ctx host (''sudo systemctl is-active '' @ serviceName))
          = (Failed err, dt) \<longrightarrow>
    waitLoop rt ctx host serviceName timeout deadline w
      = waitLoop rt ctx host serviceName timeout deadline
          (sleep rt (5 * Second)
             (snd (call rt (SSHExec ctx host (''sudo systemctl is-active '' @ serviceName)) w))))
   \<and> (fst (waitForService rt ctx host serviceName timeout w) = Inr ()
       \<or> (fst (waitForService rt ctx host serviceName timeout w)
             = Inl (''service '' @ serviceName @ '' did not become healthy within ''
                     @ DurationString rt timeout)
           \<and> now w + timeout \<le> now (snd (waitForService rt ctx host serviceName timeout w))))"
proof (rule conjI)
  show "now w < deadline
      \<and> respond rt (trace w) (SSHExec ctx host (''sudo systemctl is-active '' @ serviceName))
          = (Failed err, dt) \<longrightarrow>
    waitLoop rt ctx host serviceName timeout deadline w
      = waitLoop rt ctx host serviceName timeout deadline
          (sleep rt (5 * Second)
             (snd (call rt (SSHExec ctx host (''sudo systemctl is-active '' @ serviceName)) w)))"
    using waitLoop_retry[of w deadline rt ctx host serviceName timeout]
      probe_failed_inactive[of rt w ctx host "''sudo systemctl is-active '' @ serviceName" err dt]
    by (simp add: probe_world)
next
  show "fst (waitForService rt ctx host serviceName timeout w) = Inr ()
       \<or> (fst (waitForService rt ctx host serviceName timeout w)
             = Inl (''service '' @ serviceName @ '' did not become healthy within ''
                     @ DurationString rt timeout)
           \<and> now w + timeout \<le> now (snd (waitForService rt ctx host serviceName timeout w)))"
    unfolding waitForService_def by (rule waitLoop_result)
qed

lemmas wait_defs = waitForService_def waitLoop.simps isActive_def

theorem waitForService_swallows_probe_errors_witness:
  "now (fresh 0) < 30 * Second
   \<and> respond lostRuntime (trace (fresh 0)) (SSHExec Background ''10.240.0.10'' ''sudo systemctl is-active etcd'')
       = (Failed ''connection lost'', Second)
   \<and> waitLoop lostRuntime Background ''10.240.0.10'' ''etcd'' (30 * Second) (30 * Second) (fresh 0)
       = waitLoop lostRuntime Background ''10.240.0.10'' ''etcd'' (30 * Second) (30 * Second)
           \<lparr>trace = [(SSHExec Background ''10.240.0.10'' ''sudo systemctl is-active etcd'',
                       Failed ''connection lost''),
                      (Sleep (5 * Second), Done [])],
            now = 6 * Second\<rparr>
   \<and> fst (waitForService lostRuntime Background ''10.240.0.10'' ''etcd'' (30 * Second) (fresh 0))
       = Inl ''service etcd did not become healthy within 30s''
   \<and> now (snd (waitForService lostRuntime Background ''10.240.0.10'' ''etcd'' (30 * Second) (fresh 0)))
       = 30 * Second"
proof -
  have early: "now (fresh 0) < 30 * Second"
    by (simp add: fresh_def Second_def)
  have lost: "respond lostRuntime (trace (fresh 0))
      (SSHExec Background ''10.240.0.10'' (''sudo systemctl is-active '' @ ''etcd''))
       = (Failed ''connection lost'', Second)"
    by (simp add: lostRuntime_def)
  have next_world: "sleep lostRuntime (5 * Second)
      (snd (call lostRuntime (SSHExec Background ''10.240.0.10'' ''sudo systemctl is-active etcd'')
         (fresh 0)))
      = \<lparr>trace = [(SSHExec Background ''10.240.0.10'' ''sudo systemctl is-active etcd'',
                       Failed ''connection lost''),
                      (Sleep (5 * Second), Done [])],
            now = 6 * Second\<rparr>"
    by (simp add: lostRuntime_def run_defs mock_defs)
  note step = waitForService_swallows_probe_errors[where rt = lostRuntime and w = "fresh 0"
      and deadline = "30 * Second" and ctx = Background and host = "''10.240.0.10''"
      and serviceName = "''etcd''" and timeout = "30 * Second"
      and err = "''connection lost''" and dt = Second,
      THEN conjunct1, rule_format, OF conjI[OF early lost]]
  have result: "fst (waitForService lostRuntime Background ''10.240.0.10'' ''etcd'' (30 * Second) (fresh 0))
       = Inl ''service etcd did not become healthy within 30s''"
    by (simp add: wait_defs lostRuntime_def run_defs mock_defs)
  have clock: "now (snd (waitForService lostRuntime Background ''10.240.0.10'' ''etcd'' (30 * Second) (fresh 0)))
       = 30 * Second"
    by (simp add: wait_defs lostRuntime_def run_defs mock_defs)
  have lost': "respond lostRuntime (trace (fresh 0))
      (SSHExec Background ''10.240.0.10'' ''sudo systemctl is-active etcd'')
       = (Failed ''connection lost'', Second)"
    using lost by simp
  have step': "waitLoop lostRuntime Background ''10.240.0.10'' ''etcd'' (30 * Second) (30 * Second)
        (fresh 0)
       = waitLoop lostRuntime Background ''10.240.0.10'' ''etcd'' (30 * Second) (30 * Second)
           \<lparr>trace = [(SSHExec Background ''10.240.0.10'' ''sudo systemctl is-active etcd'',
                       Failed ''connection lost''),
                      (Sleep (5 * Second), Done [])],
            now = 6 * Second\<rparr>"
    using step by (simp add: next_world)
  from early lost' step' result clock show ?thesis
    by (intro conjI)
qed

end
